theory Spec2Isabelle
  imports Main "HOL-Library.Word"
begin

unbundle bit_operations_syntax

section \<open>The mount builtins of init (init/builtins.c)\<close>

text \<open>
  This theory embeds \<^verbatim>\<open>mount_flags\<close>, \<^verbatim>\<open>do_mount\<close> and \<^verbatim>\<open>do_mount_all\<close> of
  \<^verbatim>\<open>init/builtins.c\<close>.  Both builtins are sequences of calls into the kernel and
  into other libraries (\<^verbatim>\<open>mount\<close>, \<^verbatim>\<open>open\<close>, \<^verbatim>\<open>ioctl\<close>, \<^verbatim>\<open>make_ext4fs\<close>,
  \<^verbatim>\<open>property_set\<close>, ...).  Nothing is assumed about what those calls answer: the
  environment is an arbitrary function from the history of the invocation and the
  call being made to the reply.  A run yields the value returned by the builtin
  together with the trace of the calls it made, in order, each with its reply.
  Log output (\<^verbatim>\<open>ERROR\<close>, \<^verbatim>\<open>INFO\<close>, \<^verbatim>\<open>printf\<close>) is not part of the trace.
\<close>

subsection \<open>External calls, replies, traces\<close>

datatype call =
    Mtd_name_to_number string                       \<comment> \<open>\<^verbatim>\<open>mtd_name_to_number(label)\<close>\<close>
  | Inand_name_to_number string                     \<comment> \<open>\<^verbatim>\<open>inand_name_to_number(label)\<close>\<close>
  | Wait_for_file string int                        \<comment> \<open>\<^verbatim>\<open>wait_for_file(path, timeout)\<close>\<close>
  | Mount string string string "32 word" "string option"
                                                    \<comment> \<open>\<^verbatim>\<open>mount(source, target, fstype, flags, options)\<close>\<close>
  | Open string int                                 \<comment> \<open>\<^verbatim>\<open>open(path, mode)\<close>\<close>
  | Ioctl_LOOP_GET_STATUS int                       \<comment> \<open>\<^verbatim>\<open>ioctl(loop, LOOP_GET_STATUS, &info)\<close>\<close>
  | Ioctl_LOOP_SET_FD int int                       \<comment> \<open>\<^verbatim>\<open>ioctl(loop, LOOP_SET_FD, fd)\<close>\<close>
  | Ioctl_LOOP_CLR_FD int                           \<comment> \<open>\<^verbatim>\<open>ioctl(loop, LOOP_CLR_FD, 0)\<close>\<close>
  | Close int                                       \<comment> \<open>\<^verbatim>\<open>close(fd)\<close>\<close>
  | Usleep nat                                      \<comment> \<open>\<^verbatim>\<open>usleep(microseconds)\<close>\<close>
  | Make_ext4fs string string                       \<comment> \<open>\<^verbatim>\<open>make_ext4fs(device, 0, target, sehandle)\<close>\<close>
  | Property_get string                             \<comment> \<open>\<^verbatim>\<open>property_get(name, buf)\<close>\<close>
  | Property_set string string                      \<comment> \<open>\<^verbatim>\<open>property_set(name, value)\<close>\<close>
  | Fork                                            \<comment> \<open>\<^verbatim>\<open>fork()\<close>\<close>
  | Waitpid int                                     \<comment> \<open>\<^verbatim>\<open>waitpid(pid, &status, 0)\<close>\<close>
  | Klog_set_level int                              \<comment> \<open>\<^verbatim>\<open>klog_set_level(level)\<close>\<close>
  | Fs_mgr_read_fstab string                        \<comment> \<open>\<^verbatim>\<open>fs_mgr_read_fstab(path)\<close>\<close>
  | Fs_mgr_mount_all                                \<comment> \<open>\<^verbatim>\<open>fs_mgr_mount_all(fstab)\<close>\<close>
  | Fs_mgr_free_fstab                               \<comment> \<open>\<^verbatim>\<open>fs_mgr_free_fstab(fstab)\<close>\<close>
  | Action_for_each_trigger string                  \<comment> \<open>\<^verbatim>\<open>action_for_each_trigger(name, action_add_queue_tail)\<close>\<close>

text \<open>
  A reply is the value the call returns and the value it leaves in its out-parameter:
  \<^verbatim>\<open>errno\<close> for the system calls, the status word for \<^verbatim>\<open>waitpid\<close>.
\<close>

type_synonym reply = "int \<times> int"
type_synonym trace = "(call \<times> reply) list"
type_synonym env = "trace \<Rightarrow> call \<Rightarrow> reply"

definition val :: "reply \<Rightarrow> int" where
  "val r = fst r"

definition out :: "reply \<Rightarrow> int" where
  "out r = snd r"

definition ext_call :: "env \<Rightarrow> call \<Rightarrow> trace \<Rightarrow> reply \<times> trace" where
  "ext_call e c tr = (e tr c, tr @ [(c, e tr c)])"

subsection \<open>Constants of the system headers\<close>

definition MS_RDONLY :: "32 word" where "MS_RDONLY = 1"
definition MS_NOSUID :: "32 word" where "MS_NOSUID = 2"
definition MS_NODEV :: "32 word" where "MS_NODEV = 4"
definition MS_NOEXEC :: "32 word" where "MS_NOEXEC = 8"
definition MS_REMOUNT :: "32 word" where "MS_REMOUNT = 32"
definition MS_NOATIME :: "32 word" where "MS_NOATIME = 1024"
definition MS_NODIRATIME :: "32 word" where "MS_NODIRATIME = 2048"
definition MS_BIND :: "32 word" where "MS_BIND = 4096"
definition MS_REC :: "32 word" where "MS_REC = 16384"
definition MS_UNBINDABLE :: "32 word" where "MS_UNBINDABLE = 131072"
definition MS_PRIVATE :: "32 word" where "MS_PRIVATE = 262144"
definition MS_SLAVE :: "32 word" where "MS_SLAVE = 524288"
definition MS_SHARED :: "32 word" where "MS_SHARED = 1048576"

definition O_RDONLY :: int where "O_RDONLY = 0"
definition O_RDWR :: int where "O_RDWR = 2"
definition ENXIO :: int where "ENXIO = 6"

text \<open>\<^verbatim>\<open>WIFEXITED\<close> and \<^verbatim>\<open>WEXITSTATUS\<close> of \<^verbatim>\<open>sys/wait.h\<close>, on the status word.\<close>

definition WIFEXITED :: "int \<Rightarrow> bool" where
  "WIFEXITED status = (status AND 127 = 0)"

definition WEXITSTATUS :: "int \<Rightarrow> int" where
  "WEXITSTATUS status = drop_bit 8 (status AND 65280)"

subsection \<open>C library helpers\<close>

text \<open>
  \<^verbatim>\<open>strncmp(a, b, n) == 0\<close> on NUL-terminated strings: the first \<open>n\<close> bytes agree, or
  both strings end, at the same place, before that.
\<close>

definition strncmp_eq :: "string \<Rightarrow> string \<Rightarrow> nat \<Rightarrow> bool" where
  "strncmp_eq a b n = (take n a = take n b)"

text \<open>\<^verbatim>\<open>sprintf(tmp, "...%d", n)\<close>: the decimal digits of \<open>n\<close>.\<close>

definition digit_char :: "nat \<Rightarrow> char" where
  "digit_char d = ''0123456789'' ! d"

function show_nat :: "nat \<Rightarrow> string" where
  "show_nat n = (if n < 10 then [digit_char n] else show_nat (n div 10) @ [digit_char (n mod 10)])"
  by pat_completeness auto
termination
  by (relation "measure (\<lambda>n. n)") auto

definition show_int :: "int \<Rightarrow> string" where
  "show_int i = (if i < 0 then CHR ''-'' # show_nat (nat (- i)) else show_nat (nat i))"

subsection \<open>The flag table and the parse of the trailing arguments\<close>

definition mount_flags :: "(string \<times> 32 word) list" where
  "mount_flags =
    [ (''noatime'',    MS_NOATIME),
      (''noexec'',     MS_NOEXEC),
      (''nosuid'',     MS_NOSUID),
      (''nodev'',      MS_NODEV),
      (''nodiratime'', MS_NODIRATIME),
      (''ro'',         MS_RDONLY),
      (''rw'',         0),
      (''remount'',    MS_REMOUNT),
      (''bind'',       MS_BIND),
      (''rec'',        MS_REC),
      (''unbindable'', MS_UNBINDABLE),
      (''private'',    MS_PRIVATE),
      (''slave'',      MS_SLAVE),
      (''shared'',     MS_SHARED),
      (''defaults'',   0) ]"

text \<open>
  The inner loop of \<^verbatim>\<open>do_mount\<close>: the first entry of the table whose name is the
  token (\<^verbatim>\<open>strcmp\<close>), or none when the scan reaches the terminating entry.
\<close>

fun find_flag :: "(string \<times> 32 word) list \<Rightarrow> string \<Rightarrow> 32 word option" where
  "find_flag [] s = None"
| "find_flag ((name, flag) # tbl) s = (if s = name then Some flag else find_flag tbl s)"

text \<open>
  The outer loop, \<^verbatim>\<open>for (n = 4; n < nargs; n++)\<close>, over the state
  \<open>(flags, options, wait)\<close>; \<open>nargs\<close> is the length of \<open>args\<close>.
\<close>

function parse_loop ::
  "string list \<Rightarrow> nat \<Rightarrow> 32 word \<times> string option \<times> bool \<Rightarrow> 32 word \<times> string option \<times> bool"
where
  "parse_loop args n (flags, options, wait) =
     (if n < length args then
        (case find_flag mount_flags (args ! n) of
           Some flag \<Rightarrow> parse_loop args (n + 1) (flags OR flag, options, wait)
         | None \<Rightarrow>
             if args ! n = ''wait'' then parse_loop args (n + 1) (flags, options, True)
             else if n + 1 = length args then parse_loop args (n + 1) (flags, Some (args ! n), wait)
             else parse_loop args (n + 1) (flags, options, wait))
      else (flags, options, wait))"
  by pat_completeness auto
termination
  by (relation "measure (\<lambda>(args, n, s). length args - n)") auto

definition parse_mount_args :: "string list \<Rightarrow> 32 word \<times> string option \<times> bool" where
  "parse_mount_args args = parse_loop args 4 (0, None, False)"

subsection \<open>The branches of \<^verbatim>\<open>do_mount\<close>\<close>

text \<open>
  A run of \<^verbatim>\<open>do_mount\<close> is \<open>Some (ret, tr)\<close> when the call returns \<open>ret\<close> after the calls
  of \<open>tr\<close>, and \<open>None\<close> when it does not return: it polls or scans forever, or it
  leaves defined behaviour by overrunning its buffer \<^verbatim>\<open>tmp\<close>.  The argument \<open>timeout\<close>
  stands for the macro \<^verbatim>\<open>COMMAND_RETRY_TIMEOUT\<close> of \<^verbatim>\<open>init.h\<close>, whose value is fixed
  when init is built.
\<close>

definition do_mount_mtd ::
  "env \<Rightarrow> int \<Rightarrow> string \<Rightarrow> string \<Rightarrow> string \<Rightarrow> 32 word \<Rightarrow> string option \<Rightarrow> bool \<Rightarrow> trace \<Rightarrow> (int \<times> trace) option"
where
  "do_mount_mtd e timeout system source target flags options wait tr =
     (case ext_call e (Mtd_name_to_number (drop 4 source)) tr of (rn, tr1) \<Rightarrow>
        if val rn < 0 then Some (- 1, tr1)
        else
          let tmp = ''/dev/block/mtdblock'' @ show_int (val rn);
              tr2 = (if wait then snd (ext_call e (Wait_for_file tmp timeout) tr1) else tr1)
          in case ext_call e (Mount tmp target system flags options) tr2 of (rm, tr3) \<Rightarrow>
               if val rm < 0 then Some (- 1, tr3) else Some (0, tr3))"

definition do_mount_ubifs ::
  "env \<Rightarrow> string \<Rightarrow> string \<Rightarrow> string \<Rightarrow> 32 word \<Rightarrow> string option \<Rightarrow> trace \<Rightarrow> (int \<times> trace) option"
where
  "do_mount_ubifs e system source target flags options tr =
     (case ext_call e (Mount source target system flags options) tr of (r1, tr1) \<Rightarrow>
        if val r1 < 0 then
          (case ext_call e (Mount source target system flags options) tr1 of (r2, tr2) \<Rightarrow>
             if val r2 < 0 then Some (- 1, tr2) else Some (0, tr2))
        else Some (0, tr1))"

text \<open>
  The slot scan \<^verbatim>\<open>for (n = 0; ; n++)\<close> of the \<^verbatim>\<open>loop@\<close> branch.  The loop has no exit
  condition: it ends only by one of the \<^verbatim>\<open>return\<close>s or the \<^verbatim>\<open>goto exit_success\<close>
  in its body.  The statements after it (\<^verbatim>\<open>close(fd)\<close>, the "out of loopback
  devices" message and a \<^verbatim>\<open>return -1\<close>) cannot be reached.  A scan that never meets
  one of these exits does not return: it has the value \<open>None\<close>.  The counter \<^verbatim>\<open>n\<close> is
  a C \<^verbatim>\<open>int\<close>; the model counts with a natural number, which is the same as long as
  fewer than \<open>2\<^sup>3\<^sup>1\<close> slots are visited.
\<close>

partial_function (option) loop_scan ::
  "env \<Rightarrow> string \<Rightarrow> string \<Rightarrow> 32 word \<Rightarrow> string option \<Rightarrow> int \<Rightarrow> int \<Rightarrow> nat \<Rightarrow> trace \<Rightarrow> (int \<times> trace) option"
where
  "loop_scan e system target flags options mode fd n tr =
     (let tmp = ''/dev/block/loop'' @ show_int (int n) in
      case ext_call e (Open tmp mode) tr of (rl, tr1) \<Rightarrow>
        if val rl < 0 then Some (- 1, tr1)
        else
          case ext_call e (Ioctl_LOOP_GET_STATUS (val rl)) tr1 of (rs, tr2) \<Rightarrow>
            if val rs < 0 \<and> out rs = ENXIO then
              (case ext_call e (Ioctl_LOOP_SET_FD (val rl) fd) tr2 of (rb, tr3) \<Rightarrow>
                 if val rb \<ge> 0 then
                   (case ext_call e (Close fd) tr3 of (rc, tr4) \<Rightarrow>
                    case ext_call e (Mount tmp target system flags options) tr4 of (rm, tr5) \<Rightarrow>
                      if val rm < 0 then
                        (case ext_call e (Ioctl_LOOP_CLR_FD (val rl)) tr5 of (rx, tr6) \<Rightarrow>
                         case ext_call e (Close (val rl)) tr6 of (ry, tr7) \<Rightarrow>
                           Some (- 1, tr7))
                      else
                        (case ext_call e (Close (val rl)) tr5 of (ry, tr6) \<Rightarrow>
                           Some (0, tr6)))
                 else
                   (case ext_call e (Close (val rl)) tr3 of (ry, tr4) \<Rightarrow>
                      loop_scan e system target flags options mode fd (n + 1) tr4))
            else
              (case ext_call e (Close (val rl)) tr2 of (ry, tr3) \<Rightarrow>
                 loop_scan e system target flags options mode fd (n + 1) tr3))"

declare loop_scan.simps [code]

definition do_mount_loop ::
  "env \<Rightarrow> string \<Rightarrow> string \<Rightarrow> string \<Rightarrow> 32 word \<Rightarrow> string option \<Rightarrow> trace \<Rightarrow> (int \<times> trace) option"
where
  "do_mount_loop e system source target flags options tr =
     (let mode = (if flags AND MS_RDONLY \<noteq> 0 then O_RDONLY else O_RDWR) in
      case ext_call e (Open (drop 5 source) mode) tr of (rf, tr1) \<Rightarrow>
        if val rf < 0 then Some (- 1, tr1)
        else loop_scan e system target flags options mode (val rf) 0 tr1)"

text \<open>
  The \<^verbatim>\<open>inand@\<close> poll, \<^verbatim>\<open>do { n = inand_name_to_number(...); usleep(200000); } while (n < 0)\<close>.
\<close>

partial_function (option) inand_poll :: "env \<Rightarrow> string \<Rightarrow> trace \<Rightarrow> (int \<times> trace) option" where
  "inand_poll e label tr =
     (case ext_call e (Inand_name_to_number label) tr of (rn, tr1) \<Rightarrow>
      case ext_call e (Usleep 200000) tr1 of (ru, tr2) \<Rightarrow>
        if val rn < 0 then inand_poll e label tr2 else Some (val rn, tr2))"

declare inand_poll.simps [code]

text \<open>
  The last branch, from the first \<^verbatim>\<open>mount\<close> on the resolved path \<^verbatim>\<open>tmp\<close> to the end
  of the function: the mount, the format and second mount of the cache, the
  property for the data partition, and \<^verbatim>\<open>exit_success\<close>.
\<close>

definition mount_resolved ::
  "env \<Rightarrow> string \<Rightarrow> string \<Rightarrow> string \<Rightarrow> 32 word \<Rightarrow> string option \<Rightarrow> trace \<Rightarrow> int \<times> trace"
where
  "mount_resolved e system tmp target flags options tr =
     (case ext_call e (Mount tmp target system flags options) tr of (mount_result, tr1) \<Rightarrow>
        case (if val mount_result < 0 \<and> strncmp_eq system ''ext4'' 4 \<and> strncmp_eq target ''/cache'' 6 then
                (case ext_call e (Make_ext4fs tmp target) tr1 of (result, tr2) \<Rightarrow>
                 case ext_call e (Mount tmp target system flags options) tr2 of (result2, tr3) \<Rightarrow>
                   if val result2 \<noteq> 0 then Inl (- 2, tr3) else Inr tr3)
              else Inr tr1) of
          Inl early \<Rightarrow> early
        | Inr tr4 \<Rightarrow>
            if val mount_result < 0 \<and> strncmp_eq target ''/data'' 5 then
              (case ext_call e (Property_get ''ro.init.mountdatafail'') tr4 of (ret, tr5) \<Rightarrow>
               case ext_call e (Property_set ''ro.init.mountdatafail'' ''true'') tr5 of (rp, tr6) \<Rightarrow>
                 (0, tr6))
            else (0, tr4))"

text \<open>
  \<^verbatim>\<open>strcpy(tmp, source)\<close> into \<^verbatim>\<open>char tmp[64]\<close> writes the bytes of the source and a
  terminating NUL.  A source of at most 63 bytes is copied as it is.  A source of 64
  bytes or more is written past the end of the buffer: C defines no behaviour for
  that, and the copy has no value.  The paths that \<^verbatim>\<open>sprintf\<close> writes into \<^verbatim>\<open>tmp\<close> in the
  other places (a fixed prefix of at most 23 bytes and the digits of an \<^verbatim>\<open>int\<close>) always
  fit.
\<close>

definition strcpy_tmp :: "string \<Rightarrow> string option" where
  "strcpy_tmp source = (if length source < 64 then Some source else None)"

text \<open>
  The last branch as a whole: the wait, the resolution of an \<^verbatim>\<open>inand@\<close> source by
  \<^verbatim>\<open>sprintf\<close> or the copy of a literal source by \<^verbatim>\<open>strcpy\<close>, and the part above.  An
  invocation that overruns \<^verbatim>\<open>tmp\<close> has no defined result; the model gives it \<open>None\<close>, as it
  does for an invocation that does not return.
\<close>

definition do_mount_default ::
  "env \<Rightarrow> int \<Rightarrow> string \<Rightarrow> string \<Rightarrow> string \<Rightarrow> 32 word \<Rightarrow> string option \<Rightarrow> bool \<Rightarrow> trace \<Rightarrow> (int \<times> trace) option"
where
  "do_mount_default e timeout system source target flags options wait tr =
     (let tr1 = (if wait then snd (ext_call e (Wait_for_file source timeout) tr) else tr) in
      if strncmp_eq source ''inand@'' 6 then
        (case inand_poll e (drop 6 source) tr1 of
           None \<Rightarrow> None
         | Some (n, tr2) \<Rightarrow>
             Some (mount_resolved e system (''/dev/block/cardblkinand'' @ show_int n) target flags options tr2))
      else
        (case strcpy_tmp source of
           None \<Rightarrow> None
         | Some tmp \<Rightarrow> Some (mount_resolved e system tmp target flags options tr1)))"

subsection \<open>\<^verbatim>\<open>do_mount\<close>\<close>

text \<open>
  \<^verbatim>\<open>int do_mount(int nargs, char **args)\<close>, with \<open>nargs = length args\<close>.  The function
  reads \<^verbatim>\<open>args[1]\<close>, \<^verbatim>\<open>args[2]\<close> and \<^verbatim>\<open>args[3]\<close> without a check: the command table of
  init gives it at least four arguments, and the theorems below are stated for
  argument vectors of that shape.
\<close>

definition do_mount :: "env \<Rightarrow> int \<Rightarrow> string list \<Rightarrow> (int \<times> trace) option" where
  "do_mount e timeout args =
     (case parse_mount_args args of (flags, options, wait) \<Rightarrow>
        let system = args ! 1; source = args ! 2; target = args ! 3 in
        if strncmp_eq source ''mtd@'' 4 then
          do_mount_mtd e timeout system source target flags options wait []
        else if strncmp_eq system ''ubifs'' 5 then
          do_mount_ubifs e system source target flags options []
        else if strncmp_eq source ''loop@'' 5 then
          do_mount_loop e system source target flags options []
        else
          do_mount_default e timeout system source target flags options wait [])"

subsection \<open>\<^verbatim>\<open>do_mount_all\<close>\<close>

text \<open>
  The parent returns from \<^verbatim>\<open>do_mount_all\<close>; the child leaves it through \<^verbatim>\<open>exit\<close>.
\<close>

datatype outcome = Returns int | Exits int

definition do_mount_all :: "env \<Rightarrow> string list \<Rightarrow> outcome \<times> trace" where
  "do_mount_all e args =
     (if length args \<noteq> 2 then (Returns (- 1), [])
      else
        case ext_call e Fork [] of (pid, tr1) \<Rightarrow>
          if val pid > 0 then
            (case ext_call e (Waitpid (val pid)) tr1 of (rw, tr2) \<Rightarrow>
               let status = out rw;
                   ret = (if WIFEXITED status then WEXITSTATUS status else - 1)
               in if ret = 1 then
                    (case ext_call e (Property_set ''ro.crypto.state'' ''encrypted'') tr2 of (r1, tr3) \<Rightarrow>
                     case ext_call e (Property_set ''vold.decrypt'' ''1'') tr3 of (r2, tr4) \<Rightarrow>
                       (Returns ret, tr4))
                  else if ret = 0 then
                    (case ext_call e (Property_set ''ro.crypto.state'' ''unencrypted'') tr2 of (r1, tr3) \<Rightarrow>
                     case ext_call e (Action_for_each_trigger ''nonencrypted'') tr3 of (r2, tr4) \<Rightarrow>
                       (Returns ret, tr4))
                  else (Returns ret, tr2))
          else if val pid = 0 then
            (case ext_call e (Klog_set_level 6) tr1 of (r1, tr2) \<Rightarrow>
             case ext_call e (Fs_mgr_read_fstab (args ! 1)) tr2 of (r2, tr3) \<Rightarrow>
             case ext_call e Fs_mgr_mount_all tr3 of (child_ret, tr4) \<Rightarrow>
             case ext_call e Fs_mgr_free_fstab tr4 of (r3, tr5) \<Rightarrow>
               (Exits (val child_ret), tr5))
          else (Returns (- 1), tr1))"

subsection \<open>Observations on traces\<close>

text \<open>The properties published and the triggers enqueued by a run, in order.\<close>

fun property_of :: "call \<Rightarrow> (string \<times> string) option" where
  "property_of (Property_set k v) = Some (k, v)"
| "property_of _ = None"

fun trigger_of :: "call \<Rightarrow> string option" where
  "trigger_of (Action_for_each_trigger name) = Some name"
| "trigger_of _ = None"

definition property_sets :: "trace \<Rightarrow> (string \<times> string) list" where
  "property_sets tr = List.map_filter (\<lambda>(c, r). property_of c) tr"

definition triggers :: "trace \<Rightarrow> string list" where
  "triggers tr = List.map_filter (\<lambda>(c, r). trigger_of c) tr"

subsection \<open>The parse of the trailing arguments, as the specification words it\<close>

text \<open>
  The flags are the bitwise OR of the table entries that match a token; \<open>wait\<close> is
  requested when an unmatched token is the literal \<^verbatim>\<open>wait\<close>; the options are the last
  token when it is unmatched and is not \<^verbatim>\<open>wait\<close>.
\<close>

definition matching_flags :: "string \<Rightarrow> 32 word list" where
  "matching_flags tok = map snd (filter (\<lambda>entry. fst entry = tok) mount_flags)"

definition unmatched :: "string \<Rightarrow> bool" where
  "unmatched tok = (tok \<notin> set (map fst mount_flags))"

definition spec_flags :: "string list \<Rightarrow> 32 word" where
  "spec_flags toks = foldl (OR) 0 (concat (map matching_flags toks))"

definition spec_wait :: "string list \<Rightarrow> bool" where
  "spec_wait toks = list_ex (\<lambda>tok. unmatched tok \<and> tok = ''wait'') toks"

definition spec_options :: "string list \<Rightarrow> string option" where
  "spec_options toks =
     (if toks \<noteq> [] \<and> unmatched (last toks) \<and> last toks \<noteq> ''wait'' then Some (last toks) else None)"

subsection \<open>Environments of the scenarios\<close>

text \<open>
  The concrete runs stated further down are made in the environments defined here and
  below, with the retry timeout set to 5.
\<close>

text \<open>
  The child of \<^verbatim>\<open>do_mount_all\<close> has pid 57 and ends through \<^verbatim>\<open>exit(code)\<close>: the
  status word that \<^verbatim>\<open>waitpid\<close> stores carries the exit code in bits 8 to 15.
\<close>

definition env_child_exits :: "int \<Rightarrow> env" where
  "env_child_exits code tr c =
     (case c of Fork \<Rightarrow> (57, 0) | Waitpid _ \<Rightarrow> (57, 256 * code) | _ \<Rightarrow> (0, 0))"

subsection \<open>The shape of a slot scan\<close>

text \<open>
  A slot reports blank when \<^verbatim>\<open>LOOP_GET_STATUS\<close> fails with \<^verbatim>\<open>ENXIO\<close>.  A slot is
  skipped when it is opened, queried and closed, either because it did not report
  blank, or because it did and \<^verbatim>\<open>LOOP_SET_FD\<close> then failed.  The scan ends at a slot
  that cannot be opened, or at a slot that reports blank and takes the binding, where
  the mount follows.  A scan from slot \<open>n\<close> is a run of skipped slots
  \<open>n, n + 1, ...\<close> and one final slot.
\<close>

definition loop_dev :: "nat \<Rightarrow> string" where
  "loop_dev n = ''/dev/block/loop'' @ show_int (int n)"

definition reports_blank :: "reply \<Rightarrow> bool" where
  "reports_blank rs = (val rs < 0 \<and> out rs = ENXIO)"

definition skipped_slot :: "int \<Rightarrow> int \<Rightarrow> nat \<Rightarrow> trace \<Rightarrow> bool" where
  "skipped_slot mode fd n seg =
     (let l = val (snd (seg ! 0)) in
        (map fst seg = [Open (loop_dev n) mode, Ioctl_LOOP_GET_STATUS l, Close l] \<and>
           0 \<le> l \<and> \<not> reports_blank (snd (seg ! 1)))
      \<or> (map fst seg = [Open (loop_dev n) mode, Ioctl_LOOP_GET_STATUS l, Ioctl_LOOP_SET_FD l fd, Close l] \<and>
           0 \<le> l \<and> reports_blank (snd (seg ! 1)) \<and> val (snd (seg ! 2)) < 0))"

definition final_slot ::
  "string \<Rightarrow> string \<Rightarrow> 32 word \<Rightarrow> string option \<Rightarrow> int \<Rightarrow> int \<Rightarrow> nat \<Rightarrow> trace \<Rightarrow> int \<Rightarrow> bool" where
  "final_slot system target flags options mode fd n fin ret =
     (let l = val (snd (fin ! 0)) in
        (map fst fin = [Open (loop_dev n) mode] \<and> l < 0 \<and> ret = - 1)
      \<or> (map fst fin = [Open (loop_dev n) mode, Ioctl_LOOP_GET_STATUS l, Ioctl_LOOP_SET_FD l fd, Close fd,
                         Mount (loop_dev n) target system flags options, Close l] \<and>
           0 \<le> l \<and> reports_blank (snd (fin ! 1)) \<and> 0 \<le> val (snd (fin ! 2)) \<and>
           0 \<le> val (snd (fin ! 4)) \<and> ret = 0)
      \<or> (map fst fin = [Open (loop_dev n) mode, Ioctl_LOOP_GET_STATUS l, Ioctl_LOOP_SET_FD l fd, Close fd,
                         Mount (loop_dev n) target system flags options, Ioctl_LOOP_CLR_FD l, Close l] \<and>
           0 \<le> l \<and> reports_blank (snd (fin ! 1)) \<and> 0 \<le> val (snd (fin ! 2)) \<and>
           val (snd (fin ! 4)) < 0 \<and> ret = - 1))"

definition scan_run ::
  "string \<Rightarrow> string \<Rightarrow> 32 word \<Rightarrow> string option \<Rightarrow> int \<Rightarrow> int \<Rightarrow> nat \<Rightarrow> trace \<Rightarrow> int \<Rightarrow> bool" where
  "scan_run system target flags options mode fd n tr ret =
     (\<exists>segs fin. tr = concat segs @ fin \<and>
        (\<forall>i < length segs. skipped_slot mode fd (n + i) (segs ! i)) \<and>
        final_slot system target flags options mode fd (n + length segs) fin ret)"

subsection \<open>The shape of an \<^verbatim>\<open>inand@\<close> poll\<close>

text \<open>
  A poll is a run of attempts, each a lookup of the label followed by
  \<^verbatim>\<open>usleep(200000)\<close>; every attempt but the last yields a negative number, the last
  one yields the index.  \<open>lookups\<close> counts the lookups made so far in a history.
\<close>

definition poll_events :: "string \<Rightarrow> (reply \<times> reply) list \<Rightarrow> trace" where
  "poll_events label rs =
     concat (map (\<lambda>(r, u). [(Inand_name_to_number label, r), (Usleep 200000, u)]) rs)"

definition poll_run :: "string \<Rightarrow> trace \<Rightarrow> int \<Rightarrow> bool" where
  "poll_run label tr n =
     (\<exists>rs. tr = poll_events label rs \<and> rs \<noteq> [] \<and> n = val (fst (last rs)) \<and> 0 \<le> n \<and>
        (\<forall>p \<in> set (butlast rs). val (fst p) < 0))"

fun is_inand :: "call \<Rightarrow> bool" where
  "is_inand (Inand_name_to_number l) = True"
| "is_inand _ = False"

definition lookups :: "trace \<Rightarrow> nat" where
  "lookups tr = length (filter (\<lambda>(c, r). is_inand c) tr)"

subsection \<open>Mounts and formats of a run, and the shape of the last branch\<close>

text \<open>
  \<open>format_calls\<close> are the calls of \<^verbatim>\<open>make_ext4fs\<close> in a trace, \<open>mount_results\<close> the values
  returned by its \<^verbatim>\<open>mount\<close> calls, in order.  \<open>wants_format\<close> is the condition on the
  filesystem type and the target under which the last branch formats after a failed
  mount.  \<open>mount_tail\<close> lists the four ways in which the last branch can end, once the
  device path \<^verbatim>\<open>tmp\<close> is known.
\<close>

fun is_mount :: "call \<Rightarrow> bool" where
  "is_mount (Mount s t f fl opt) = True"
| "is_mount _ = False"

fun is_format :: "call \<Rightarrow> bool" where
  "is_format (Make_ext4fs d t) = True"
| "is_format _ = False"

definition format_calls :: "trace \<Rightarrow> call list" where
  "format_calls tr = filter is_format (map fst tr)"

definition mount_results :: "trace \<Rightarrow> int list" where
  "mount_results tr = map (\<lambda>(c, r). val r) (filter (\<lambda>(c, r). is_mount c) tr)"

definition wants_format :: "string \<Rightarrow> string \<Rightarrow> bool" where
  "wants_format system target = (strncmp_eq system ''ext4'' 4 \<and> strncmp_eq target ''/cache'' 6)"

definition mount_tail ::
  "string \<Rightarrow> string \<Rightarrow> string \<Rightarrow> 32 word \<Rightarrow> string option \<Rightarrow> trace \<Rightarrow> int \<Rightarrow> bool" where
  "mount_tail system tmp target flags options evs ret =
     (let m = Mount tmp target system flags options; r1 = val (snd (evs ! 0)) in
        (map fst evs = [m] \<and> 0 \<le> r1 \<and> ret = 0)
      \<or> (map fst evs = [m, Make_ext4fs tmp target, m] \<and> r1 < 0 \<and> wants_format system target \<and>
           ret = (if val (snd (evs ! 2)) \<noteq> 0 then - 2 else 0))
      \<or> (map fst evs = [m, Property_get ''ro.init.mountdatafail'',
                         Property_set ''ro.init.mountdatafail'' ''true''] \<and>
           r1 < 0 \<and> \<not> wants_format system target \<and> strncmp_eq target ''/data'' 5 \<and> ret = 0)
      \<or> (map fst evs = [m] \<and> r1 < 0 \<and> \<not> wants_format system target \<and>
           \<not> strncmp_eq target ''/data'' 5 \<and> ret = 0))"

subsection \<open>The runs of the four branches\<close>

text \<open>
  \<^verbatim>\<open>do_mount\<close> takes its last branch when the source does not begin with \<^verbatim>\<open>mtd@\<close>, the
  filesystem type does not begin with \<^verbatim>\<open>ubifs\<close>, and the source does not begin with
  \<^verbatim>\<open>loop@\<close>.  For each branch, the predicate below lists the traces and return
  values that a run of the branch can have.
\<close>

definition default_branch :: "string \<Rightarrow> string \<Rightarrow> bool" where
  "default_branch system source =
     (\<not> strncmp_eq source ''mtd@'' 4 \<and> \<not> strncmp_eq system ''ubifs'' 5 \<and> \<not> strncmp_eq source ''loop@'' 5)"

definition mtd_run ::
  "int \<Rightarrow> string \<Rightarrow> string \<Rightarrow> string \<Rightarrow> 32 word \<Rightarrow> string option \<Rightarrow> bool \<Rightarrow> trace \<Rightarrow> int \<Rightarrow> bool" where
  "mtd_run timeout system source target flags options wait tr ret =
     (let n = val (snd (tr ! 0));
          look = Mtd_name_to_number (drop 4 source);
          dev = ''/dev/block/mtdblock'' @ show_int n;
          m = Mount dev target system flags options
      in (map fst tr = [look] \<and> n < 0 \<and> ret = - 1)
       \<or> (map fst tr = (if wait then [look, Wait_for_file dev timeout, m] else [look, m]) \<and> 0 \<le> n \<and>
            ret = (if val (snd (last tr)) < 0 then - 1 else 0)))"

definition ubifs_run ::
  "string \<Rightarrow> string \<Rightarrow> string \<Rightarrow> 32 word \<Rightarrow> string option \<Rightarrow> trace \<Rightarrow> int \<Rightarrow> bool" where
  "ubifs_run system source target flags options tr ret =
     (let m = Mount source target system flags options
      in (map fst tr = [m] \<and> 0 \<le> val (snd (tr ! 0)) \<and> ret = 0)
       \<or> (map fst tr = [m, m] \<and> val (snd (tr ! 0)) < 0 \<and>
            ret = (if val (snd (tr ! 1)) < 0 then - 1 else 0)))"

definition loop_mode :: "32 word \<Rightarrow> int" where
  "loop_mode flags = (if flags AND MS_RDONLY \<noteq> 0 then O_RDONLY else O_RDWR)"

definition loop_run ::
  "string \<Rightarrow> string \<Rightarrow> string \<Rightarrow> 32 word \<Rightarrow> string option \<Rightarrow> trace \<Rightarrow> int \<Rightarrow> bool" where
  "loop_run system source target flags options tr ret =
     (let fd = val (snd (tr ! 0))
      in tr \<noteq> [] \<and> fst (tr ! 0) = Open (drop 5 source) (loop_mode flags) \<and>
         (if fd < 0 then tl tr = [] \<and> ret = - 1
          else scan_run system target flags options (loop_mode flags) fd 0 (tl tr) ret))"

definition default_run ::
  "int \<Rightarrow> string \<Rightarrow> string \<Rightarrow> string \<Rightarrow> 32 word \<Rightarrow> string option \<Rightarrow> bool \<Rightarrow> trace \<Rightarrow> int \<Rightarrow> bool" where
  "default_run timeout system source target flags options wait tr ret =
     (\<exists>pre polls evs dev.
        tr = pre @ polls @ evs \<and>
        map fst pre = (if wait then [Wait_for_file source timeout] else []) \<and>
        (if strncmp_eq source ''inand@'' 6
         then \<exists>n. poll_run (drop 6 source) polls n \<and> dev = ''/dev/block/cardblkinand'' @ show_int n
         else polls = [] \<and> dev = source) \<and>
        mount_tail system dev target flags options evs ret)"

subsection \<open>More environments of the scenarios\<close>


text \<open>Every \<^verbatim>\<open>mount\<close> fails with \<^verbatim>\<open>EIO\<close>; every other call succeeds with 0.\<close>

definition env_mount_fails :: env where
  "env_mount_fails tr c = (if is_mount c then (- 1, 5) else (0, 0))"



text \<open>The awaited file never appears: \<^verbatim>\<open>wait_for_file\<close> times out and returns -1.\<close>

definition env_wait_times_out :: env where
  "env_wait_times_out tr c = (case c of Wait_for_file p t \<Rightarrow> (- 1, 0) | _ \<Rightarrow> (0, 0))"

text \<open>No label is ever found by \<^verbatim>\<open>inand_name_to_number\<close>.\<close>

definition env_no_inand :: env where
  "env_no_inand tr c = (case c of Inand_name_to_number l \<Rightarrow> (- 1, 0) | _ \<Rightarrow> (0, 0))"

text \<open>The label is found at the third lookup, with index 7.\<close>

definition env_inand_third :: env where
  "env_inand_third tr c =
     (case c of Inand_name_to_number l \<Rightarrow> (if lookups tr = 2 then (7, 0) else (- 1, 0))
      | _ \<Rightarrow> (0, 0))"



text \<open>The backing file opens as descriptor 3; there is no loop device to open.\<close>

definition env_no_loop_device :: env where
  "env_no_loop_device tr c =
     (case c of Open p m \<Rightarrow> (if tr = [] then (3, 0) else (- 1, 2)) | _ \<Rightarrow> (0, 0))"

subsection \<open>Descriptors left open\<close>

text \<open>
  The descriptors that a trace leaves open: each successful \<^verbatim>\<open>open\<close> adds the
  descriptor it returns, each \<^verbatim>\<open>close\<close> removes its argument.
\<close>

definition track_fd :: "int list \<Rightarrow> call \<times> reply \<Rightarrow> int list" where
  "track_fd fds ev =
     (case fst ev of
        Open p m \<Rightarrow> (if 0 \<le> val (snd ev) then fds @ [val (snd ev)] else fds)
      | Close fd \<Rightarrow> remove1 fd fds
      | _ \<Rightarrow> fds)"

definition open_fds :: "trace \<Rightarrow> int list" where
  "open_fds tr = foldl track_fd [] tr"

subsection \<open>Waits of a run\<close>

text \<open>\<open>wait_calls\<close> are the calls of \<^verbatim>\<open>wait_for_file\<close> in a trace, in order.\<close>

fun is_wait :: "call \<Rightarrow> bool" where
  "is_wait (Wait_for_file p t) = True"
| "is_wait _ = False"

definition wait_calls :: "trace \<Rightarrow> call list" where
  "wait_calls tr = filter is_wait (map fst tr)"

subsection \<open>The parent and the child of \<^verbatim>\<open>do_mount_all\<close>\<close>

text \<open>
  \<open>wait_status e\<close> is the status word that \<^verbatim>\<open>waitpid\<close> stores in the parent, in the
  environment \<open>e\<close>.  In \<open>env_in_child\<close> the invocation is the child (\<^verbatim>\<open>fork\<close> returns 0)
  and \<^verbatim>\<open>fs_mgr_mount_all\<close> fails with -1.
\<close>

definition wait_status :: "env \<Rightarrow> int" where
  "wait_status e = out (e [(Fork, e [] Fork)] (Waitpid (val (e [] Fork))))"

definition env_in_child :: env where
  "env_in_child tr c = (case c of Fs_mgr_mount_all \<Rightarrow> (- 1, 0) | _ \<Rightarrow> (0, 0))"

definition env_fork_fails :: env where
  "env_fork_fails tr c = (case c of Fork \<Rightarrow> (- 1, 11) | _ \<Rightarrow> (0, 0))"

section \<open>Properties\<close>

subsection \<open>The flag parse\<close>

lemma find_flag_None: "find_flag tbl s = None \<longleftrightarrow> s \<notin> set (map fst tbl)"
  by (induction tbl s rule: find_flag.induct) auto

lemma find_flag_filter:
  "distinct (map fst tbl) \<Longrightarrow>
   map snd (filter (\<lambda>entry. fst entry = s) tbl) = (case find_flag tbl s of None \<Rightarrow> [] | Some f \<Rightarrow> [f])"
proof (induction tbl)
  case Nil
  then show ?case by simp
next
  case (Cons a tbl)
  obtain name flag where a: "a = (name, flag)" by (cases a)
  show ?case
  proof (cases "s = name")
    case True
    with Cons.prems a have "s \<notin> set (map fst tbl)" by auto
    then have "filter (\<lambda>entry. fst entry = s) tbl = []"
      by (auto simp: filter_empty_conv)
    with True a show ?thesis by simp
  next
    case False
    with Cons a show ?thesis by auto
  qed
qed

lemma distinct_mount_flags: "distinct (map fst mount_flags)"
  by (simp add: mount_flags_def)

lemma wait_unmatched: "unmatched ''wait''"
  by (simp add: unmatched_def mount_flags_def)

lemma matching_flags_find:
  "matching_flags tok = (case find_flag mount_flags tok of None \<Rightarrow> [] | Some f \<Rightarrow> [f])"
  unfolding matching_flags_def by (rule find_flag_filter [OF distinct_mount_flags])

lemma parse_loop_spec:
  "n \<le> length args \<Longrightarrow>
   parse_loop args n (flags, options, wait) =
     (foldl (OR) flags (concat (map matching_flags (drop n args))),
      (if drop n args \<noteq> [] \<and> unmatched (last args) \<and> last args \<noteq> ''wait''
       then Some (last args) else options),
      wait \<or> ''wait'' \<in> set (drop n args))"
proof (induction args n "(flags, options, wait)" arbitrary: flags options wait rule: parse_loop.induct)
  case (1 args n flags options wait)
  show ?case
  proof (cases "n < length args")
    case False
    with "1.prems" show ?thesis by simp
  next
    case True
    then have dr: "drop n args = args ! n # drop (Suc n) args"
      by (simp add: Cons_nth_drop_Suc)
    have lst: "n + 1 = length args \<Longrightarrow> last args = args ! n \<and> drop (Suc n) args = []"
      using True by (cases args rule: rev_cases) (auto simp: nth_append)
    have nlst: "n + 1 \<noteq> length args \<Longrightarrow> drop (Suc n) args \<noteq> []"
      using True by simp
    show ?thesis
    proof (cases "find_flag mount_flags (args ! n)")
      case (Some flag)
      then have m1: "\<not> unmatched (args ! n)"
        using find_flag_None [of mount_flags "args ! n"] by (simp add: unmatched_def)
      then have m: "\<not> unmatched (args ! n)" "args ! n \<noteq> ''wait''"
        using wait_unmatched by auto
      have "parse_loop args n (flags, options, wait) = parse_loop args (n + 1) (flags OR flag, options, wait)"
        using True Some by simp
      also have "\<dots> = (foldl (OR) (flags OR flag) (concat (map matching_flags (drop (n + 1) args))),
          (if drop (n + 1) args \<noteq> [] \<and> unmatched (last args) \<and> last args \<noteq> ''wait''
           then Some (last args) else options),
          wait \<or> ''wait'' \<in> set (drop (n + 1) args))"
        using "1.hyps"(4) [OF True Some] True by simp
      finally show ?thesis
        using Some m lst nlst by (cases "n + 1 = length args") (auto simp: dr matching_flags_find)
    next
      case None
      then have um: "unmatched (args ! n)"
        using find_flag_None [of mount_flags "args ! n"] by (simp add: unmatched_def)
      show ?thesis
      proof (cases "args ! n = ''wait''")
        case w: True
        have "parse_loop args n (flags, options, wait) = parse_loop args (n + 1) (flags, options, True)"
          using True None w by simp
        also have "\<dots> = (foldl (OR) flags (concat (map matching_flags (drop (n + 1) args))),
          (if drop (n + 1) args \<noteq> [] \<and> unmatched (last args) \<and> last args \<noteq> ''wait''
           then Some (last args) else options),
          True \<or> ''wait'' \<in> set (drop (n + 1) args))"
          using "1.hyps"(1) [OF True None w] True by simp
        finally show ?thesis
          using None w lst nlst by (cases "n + 1 = length args") (auto simp: dr matching_flags_find)
      next
        case nw: False
        show ?thesis
        proof (cases "n + 1 = length args")
          case l: True
          have "parse_loop args n (flags, options, wait) = parse_loop args (n + 1) (flags, Some (args ! n), wait)"
            using True None nw l by simp
          also have "\<dots> = (flags, Some (args ! n), wait)"
            using l by simp
          finally show ?thesis
            using None nw um lst [OF l] by (simp add: dr matching_flags_find)
        next
          case nl: False
          have "parse_loop args n (flags, options, wait) = parse_loop args (n + 1) (flags, options, wait)"
            using True None nw nl by simp
          also have "\<dots> = (foldl (OR) flags (concat (map matching_flags (drop (n + 1) args))),
            (if drop (n + 1) args \<noteq> [] \<and> unmatched (last args) \<and> last args \<noteq> ''wait''
             then Some (last args) else options),
            wait \<or> ''wait'' \<in> set (drop (n + 1) args))"
            using "1.hyps"(3) [OF True None nw nl] True by simp
          finally show ?thesis
            using None nw nlst [OF nl] by (auto simp: dr matching_flags_find)
        qed
      qed
    qed
  qed
qed

text \<open>
  C6.  For every sequence of tokens after the target argument, the parse of
  \<^verbatim>\<open>do_mount\<close> yields the flags that are the bitwise OR of the table entries matching
  a token (an exact, case-sensitive comparison), \<open>wait\<close> exactly when some unmatched
  token is the literal \<^verbatim>\<open>wait\<close>, and as options the last token when that token is
  unmatched and is not \<^verbatim>\<open>wait\<close>, none otherwise.  Every other unmatched token leaves
  the result as it is, and the parse is a total function: no token raises an error.
\<close>

theorem parse_mount_args_spec:
  "parse_mount_args (cmd # system # source # target # toks) =
     (spec_flags toks, spec_options toks, spec_wait toks)"
proof -
  let ?args = "cmd # system # source # target # toks"
  have l: "toks \<noteq> [] \<Longrightarrow> last ?args = last toks" by simp
  have "spec_wait toks \<longleftrightarrow> ''wait'' \<in> set toks"
    using wait_unmatched by (auto simp: spec_wait_def list_ex_iff)
  then show ?thesis
    unfolding parse_mount_args_def
    by (subst parse_loop_spec) (auto simp: spec_flags_def spec_options_def)
qed

theorem parse_mount_args_spec_witness:
  "parse_mount_args [''mount'', ''ext4'', ''/dev/block/mmcblk0p5'', ''/cache'',
                     ''ro'', ''NOATIME'', ''wait'', ''nosuid'', ''barrier=1'']
     = (MS_RDONLY OR MS_NOSUID, Some ''barrier=1'', True)"
  using parse_mount_args_spec [of "''mount''" "''ext4''" "''/dev/block/mmcblk0p5''" "''/cache''"
      "[''ro'', ''NOATIME'', ''wait'', ''nosuid'', ''barrier=1'']"]
  by (simp add: spec_flags_def spec_options_def spec_wait_def matching_flags_def unmatched_def
        mount_flags_def)

subsection \<open>\<^verbatim>\<open>do_mount_all\<close>\<close>

text \<open>
  C5.  When the child exits with a status other than 0 and 1, \<^verbatim>\<open>do_mount_all\<close>
  publishes no property and enqueues no trigger, and it returns the exit status as
  it is: a positive value between 2 and 255, not the -1 that its own comment gives
  for an error.  The runs below are those of \<^verbatim>\<open>mount_all /fstab.board\<close> when
  \<^verbatim>\<open>fs_mgr_mount_all\<close> fails: the child leaves through \<^verbatim>\<open>exit(-1)\<close>, the parent reads
  the exit status 255 and returns 255.
\<close>

theorem do_mount_all_error_status_run:
  "do_mount_all env_in_child [''mount_all'', ''/fstab.board''] =
     (Exits (- 1),
      [(Fork, (0, 0)), (Klog_set_level 6, (0, 0)), (Fs_mgr_read_fstab ''/fstab.board'', (0, 0)),
       (Fs_mgr_mount_all, (- 1, 0)), (Fs_mgr_free_fstab, (0, 0))]) \<and>
   do_mount_all (env_child_exits 255) [''mount_all'', ''/fstab.board''] =
     (Returns 255, [(Fork, (57, 0)), (Waitpid 57, (57, 65280))]) \<and>
   WIFEXITED 65280 \<and> WEXITSTATUS 65280 = 255 \<and>
   property_sets [(Fork, (57, 0)), (Waitpid 57, (57, 65280))] = [] \<and>
   triggers [(Fork, (57, 0)), (Waitpid 57, (57, 65280))] = []"
  by code_simp

subsection \<open>The slot scan of the \<^verbatim>\<open>loop@\<close> branch\<close>

lemma scan_run_final:
  "final_slot system target flags options mode fd n fin ret \<Longrightarrow>
   scan_run system target flags options mode fd n fin ret"
  unfolding scan_run_def by (rule exI [of _ "[]"]) simp

lemma scan_run_skip:
  assumes "skipped_slot mode fd n seg"
    and "scan_run system target flags options mode fd (n + 1) tr ret"
  shows "scan_run system target flags options mode fd n (seg @ tr) ret"
proof -
  from assms(2) obtain segs fin where tr: "tr = concat segs @ fin"
    and sk: "\<forall>i < length segs. skipped_slot mode fd (n + 1 + i) (segs ! i)"
    and fi: "final_slot system target flags options mode fd (n + 1 + length segs) fin ret"
    unfolding scan_run_def by blast
  have "\<forall>i < length (seg # segs). skipped_slot mode fd (n + i) ((seg # segs) ! i)"
  proof (intro allI impI)
    fix i assume "i < length (seg # segs)"
    then show "skipped_slot mode fd (n + i) ((seg # segs) ! i)"
      using assms(1) sk by (cases i) auto
  qed
  moreover have "seg @ tr = concat (seg # segs) @ fin"
    using tr by simp
  moreover have "final_slot system target flags options mode fd (n + length (seg # segs)) fin ret"
    using fi by simp
  ultimately show ?thesis
    unfolding scan_run_def by blast
qed

lemma loop_scan_run:
  assumes "loop_scan e system target flags options mode fd n tr = Some y"
  shows "\<exists>tr'. snd y = tr @ tr' \<and> scan_run system target flags options mode fd n tr' (fst y)"
  using assms
proof (induction e system target flags options mode fd n tr y
       rule: loop_scan.raw_induct [rotated 1, consumes 1, case_names step])
  case (step scan e system target flags options mode fd n tr y)
  let ?tmp = "loop_dev n"
  let ?rl = "e tr (Open ?tmp mode)"
  let ?tr1 = "tr @ [(Open ?tmp mode, ?rl)]"
  let ?rs = "e ?tr1 (Ioctl_LOOP_GET_STATUS (val ?rl))"
  let ?tr2 = "?tr1 @ [(Ioctl_LOOP_GET_STATUS (val ?rl), ?rs)]"
  note body = step.hyps [unfolded Let_def ext_call_def prod.case, folded loop_dev_def]
  show ?case
  proof (cases "val ?rl < 0")
    case True
    with body have y: "y = (- 1, ?tr1)" by simp
    have "final_slot system target flags options mode fd n [(Open ?tmp mode, ?rl)] (- 1)"
      using True by (simp add: final_slot_def)
    from scan_run_final [OF this] y show ?thesis by simp
  next
    case open_ok: False
    show ?thesis
    proof (cases "val ?rs < 0 \<and> out ?rs = ENXIO")
      case False
      let ?ry = "e ?tr2 (Close (val ?rl))"
      let ?seg = "[(Open ?tmp mode, ?rl), (Ioctl_LOOP_GET_STATUS (val ?rl), ?rs), (Close (val ?rl), ?ry)]"
      from body open_ok False
      have rec: "scan e system target flags options mode fd (n + 1) (tr @ ?seg) = Some y"
        by (simp split: if_splits)
      from step.IH [OF rec] obtain tr' where
        tr': "snd y = (tr @ ?seg) @ tr'" "scan_run system target flags options mode fd (n + 1) tr' (fst y)"
        by (elim exE conjE)
      have "skipped_slot mode fd n ?seg"
        using open_ok False by (simp add: skipped_slot_def reports_blank_def)
      from scan_run_skip [OF this tr'(2)] tr'(1) show ?thesis by simp
    next
      case blank: True
      let ?rb = "e ?tr2 (Ioctl_LOOP_SET_FD (val ?rl) fd)"
      let ?tr3 = "?tr2 @ [(Ioctl_LOOP_SET_FD (val ?rl) fd, ?rb)]"
      show ?thesis
      proof (cases "0 \<le> val ?rb")
        case False
        let ?ry = "e ?tr3 (Close (val ?rl))"
        let ?seg = "[(Open ?tmp mode, ?rl), (Ioctl_LOOP_GET_STATUS (val ?rl), ?rs),
                     (Ioctl_LOOP_SET_FD (val ?rl) fd, ?rb), (Close (val ?rl), ?ry)]"
        from body open_ok blank False
        have rec: "scan e system target flags options mode fd (n + 1) (tr @ ?seg) = Some y"
          by (simp split: if_splits)
        from step.IH [OF rec] obtain tr' where
          tr': "snd y = (tr @ ?seg) @ tr'" "scan_run system target flags options mode fd (n + 1) tr' (fst y)"
          by (elim exE conjE)
        have "skipped_slot mode fd n ?seg"
          using open_ok blank False by (simp add: skipped_slot_def reports_blank_def)
        from scan_run_skip [OF this tr'(2)] tr'(1) show ?thesis by simp
      next
        case bound: True
        let ?rc = "e ?tr3 (Close fd)"
        let ?tr4 = "?tr3 @ [(Close fd, ?rc)]"
        let ?rm = "e ?tr4 (Mount ?tmp target system flags options)"
        let ?tr5 = "?tr4 @ [(Mount ?tmp target system flags options, ?rm)]"
        show ?thesis
        proof (cases "val ?rm < 0")
          case False
          let ?ry = "e ?tr5 (Close (val ?rl))"
          let ?fin = "[(Open ?tmp mode, ?rl), (Ioctl_LOOP_GET_STATUS (val ?rl), ?rs),
                       (Ioctl_LOOP_SET_FD (val ?rl) fd, ?rb), (Close fd, ?rc),
                       (Mount ?tmp target system flags options, ?rm), (Close (val ?rl), ?ry)]"
          from body open_ok blank bound False have y: "y = (0, tr @ ?fin)"
            by (simp split: if_splits)
          have "final_slot system target flags options mode fd n ?fin 0"
            using open_ok blank bound False by (simp add: final_slot_def reports_blank_def)
          from scan_run_final [OF this] y show ?thesis by simp
        next
          case True
          let ?rx = "e ?tr5 (Ioctl_LOOP_CLR_FD (val ?rl))"
          let ?tr6 = "?tr5 @ [(Ioctl_LOOP_CLR_FD (val ?rl), ?rx)]"
          let ?ry = "e ?tr6 (Close (val ?rl))"
          let ?fin = "[(Open ?tmp mode, ?rl), (Ioctl_LOOP_GET_STATUS (val ?rl), ?rs),
                       (Ioctl_LOOP_SET_FD (val ?rl) fd, ?rb), (Close fd, ?rc),
                       (Mount ?tmp target system flags options, ?rm),
                       (Ioctl_LOOP_CLR_FD (val ?rl), ?rx), (Close (val ?rl), ?ry)]"
          from body open_ok blank bound True have y: "y = (- 1, tr @ ?fin)"
            by (simp split: if_splits)
          have "final_slot system target flags options mode fd n ?fin (- 1)"
            using open_ok blank bound True by (simp add: final_slot_def reports_blank_def)
          from scan_run_final [OF this] y show ?thesis by simp
        qed
      qed
    qed
  qed
qed

subsection \<open>The poll of the \<^verbatim>\<open>inand@\<close> alias\<close>

lemma poll_run_last:
  "0 \<le> val r \<Longrightarrow>
   poll_run label [(Inand_name_to_number label, r), (Usleep 200000, u)] (val r)"
  unfolding poll_run_def by (rule exI [of _ "[(r, u)]"]) (simp add: poll_events_def)

lemma poll_run_retry:
  assumes "val r < 0" and "poll_run label tr n"
  shows "poll_run label ((Inand_name_to_number label, r) # (Usleep 200000, u) # tr) n"
proof -
  from assms(2) obtain rs where rs: "tr = poll_events label rs" "rs \<noteq> []"
    "n = val (fst (last rs))" "0 \<le> n" "\<forall>p \<in> set (butlast rs). val (fst p) < 0"
    unfolding poll_run_def by blast
  show ?thesis
    unfolding poll_run_def
    using rs assms(1) by (intro exI [of _ "(r, u) # rs"]) (simp add: poll_events_def)
qed

lemma inand_poll_run:
  assumes "inand_poll e label tr = Some y"
  shows "\<exists>tr'. snd y = tr @ tr' \<and> poll_run label tr' (fst y)"
  using assms
proof (induction e label tr y rule: inand_poll.raw_induct [rotated 1, consumes 1, case_names step])
  case (step poll e label tr y)
  let ?rn = "e tr (Inand_name_to_number label)"
  let ?tr1 = "tr @ [(Inand_name_to_number label, ?rn)]"
  let ?ru = "e ?tr1 (Usleep 200000)"
  let ?seg = "[(Inand_name_to_number label, ?rn), (Usleep 200000, ?ru)]"
  note body = step.hyps [unfolded ext_call_def prod.case]
  show ?case
  proof (cases "val ?rn < 0")
    case True
    with body have rec: "poll e label (tr @ ?seg) = Some y" by simp
    from step.IH [OF rec] obtain tr' where
      tr': "snd y = (tr @ ?seg) @ tr'" "poll_run label tr' (fst y)"
      by (elim exE conjE)
    from poll_run_retry [OF True tr'(2)] tr'(1) show ?thesis by simp
  next
    case False
    with body have y: "y = (val ?rn, tr @ ?seg)" by simp
    from False have "0 \<le> val ?rn" by simp
    from poll_run_last [OF this] y show ?thesis by simp
  qed
qed

lemma inand_poll_never:
  assumes "\<forall>h. val (e h (Inand_name_to_number label)) < 0"
  shows "inand_poll e label tr = None"
proof (rule ccontr)
  assume "inand_poll e label tr \<noteq> None"
  then obtain y where "inand_poll e label tr = Some y" by blast
  then have "\<not> (\<forall>h. val (e h (Inand_name_to_number label)) < 0)"
  proof (induction e label tr y rule: inand_poll.raw_induct [rotated 1, consumes 1, case_names step])
    case (step poll e label tr y)
    note body = step.hyps [unfolded ext_call_def prod.case]
    show ?case
    proof (cases "val (e tr (Inand_name_to_number label)) < 0")
      case True
      with body step.IH show ?thesis by simp
    next
      case False
      then show ?thesis by blast
    qed
  qed
  with assms show False by blast
qed

lemma inand_poll_returns:
  assumes "\<forall>h. lookups h = k \<longrightarrow> 0 \<le> val (e h (Inand_name_to_number label))"
    and "lookups tr \<le> k"
  shows "inand_poll e label tr \<noteq> None"
  using assms(2)
proof (induction "k - lookups tr" arbitrary: tr rule: less_induct)
  case less
  let ?rn = "e tr (Inand_name_to_number label)"
  let ?tr1 = "tr @ [(Inand_name_to_number label, ?rn)]"
  let ?ru = "e ?tr1 (Usleep 200000)"
  let ?tr2 = "?tr1 @ [(Usleep 200000, ?ru)]"
  show ?case
  proof (cases "val ?rn < 0")
    case False
    then show ?thesis
      by (subst inand_poll.simps) (simp add: ext_call_def)
  next
    case True
    with assms(1) have "lookups tr \<noteq> k" by fastforce
    with less.prems have lt: "lookups tr < k" by simp
    have l2: "lookups ?tr2 = Suc (lookups tr)" by (simp add: lookups_def)
    have "inand_poll e label ?tr2 \<noteq> None"
      using less.hyps [of ?tr2] lt l2 by simp
    with True show ?thesis
      by (subst inand_poll.simps) (simp add: ext_call_def)
  qed
qed

subsection \<open>The last branch of \<^verbatim>\<open>do_mount\<close>\<close>

lemma cache_not_data:
  "strncmp_eq target ''/cache'' 6 \<Longrightarrow> \<not> strncmp_eq target ''/data'' 5"
proof
  assume c: "strncmp_eq target ''/cache'' 6" and d: "strncmp_eq target ''/data'' 5"
  have "take 5 (take 6 target) = take 5 target" by simp
  with c have "take 5 target = ''/cach''" by (simp add: strncmp_eq_def)
  with d show False by (simp add: strncmp_eq_def)
qed

lemma mount_resolved_tail:
  assumes "mount_resolved e system tmp target flags options tr = (ret, tr')"
  shows "\<exists>evs. tr' = tr @ evs \<and> mount_tail system tmp target flags options evs ret"
proof -
  let ?m = "Mount tmp target system flags options"
  let ?rm = "e tr ?m"
  let ?tr1 = "tr @ [(?m, ?rm)]"
  show ?thesis
  proof (cases "val ?rm < 0")
    case False
    with assms have "ret = 0" "tr' = tr @ [(?m, ?rm)]"
      by (simp_all add: mount_resolved_def ext_call_def)
    moreover have "mount_tail system tmp target flags options [(?m, ?rm)] 0"
      using False by (simp add: mount_tail_def)
    ultimately show ?thesis by blast
  next
    case fail: True
    show ?thesis
    proof (cases "wants_format system target")
      case True
      let ?rf = "e ?tr1 (Make_ext4fs tmp target)"
      let ?tr2 = "?tr1 @ [(Make_ext4fs tmp target, ?rf)]"
      let ?r2 = "e ?tr2 ?m"
      let ?evs = "[(?m, ?rm), (Make_ext4fs tmp target, ?rf), (?m, ?r2)]"
      from True have nd: "\<not> strncmp_eq target ''/data'' 5"
        by (simp add: wants_format_def cache_not_data)
      from assms fail True nd have "ret = (if val ?r2 \<noteq> 0 then - 2 else 0)" "tr' = tr @ ?evs"
        by (simp_all add: mount_resolved_def ext_call_def wants_format_def split: if_splits)
      moreover have "mount_tail system tmp target flags options ?evs (if val ?r2 \<noteq> 0 then - 2 else 0)"
        using fail True by (simp add: mount_tail_def)
      ultimately show ?thesis by blast
    next
      case nf: False
      show ?thesis
      proof (cases "strncmp_eq target ''/data'' 5")
        case True
        let ?rg = "e ?tr1 (Property_get ''ro.init.mountdatafail'')"
        let ?tr2 = "?tr1 @ [(Property_get ''ro.init.mountdatafail'', ?rg)]"
        let ?rp = "e ?tr2 (Property_set ''ro.init.mountdatafail'' ''true'')"
        let ?evs = "[(?m, ?rm), (Property_get ''ro.init.mountdatafail'', ?rg),
                    (Property_set ''ro.init.mountdatafail'' ''true'', ?rp)]"
        from assms fail nf True have "ret = 0" "tr' = tr @ ?evs"
          by (simp_all add: mount_resolved_def ext_call_def wants_format_def split: if_splits)
        moreover have "mount_tail system tmp target flags options ?evs 0"
          using fail nf True by (simp add: mount_tail_def)
        ultimately show ?thesis by blast
      next
        case False
        from assms fail nf False have "ret = 0" "tr' = tr @ [(?m, ?rm)]"
          by (simp_all add: mount_resolved_def ext_call_def wants_format_def split: if_splits)
        moreover have "mount_tail system tmp target flags options [(?m, ?rm)] 0"
          using fail nf False by (simp add: mount_tail_def)
        ultimately show ?thesis by blast
      qed
    qed
  qed
qed

subsection \<open>Every run of \<^verbatim>\<open>do_mount\<close> is a run of one branch\<close>

lemma do_mount_branches:
  assumes "parse_mount_args (cmd # system # source # target # toks) = (flags, options, wait)"
  shows "do_mount e timeout (cmd # system # source # target # toks) =
     (if strncmp_eq source ''mtd@'' 4 then
        do_mount_mtd e timeout system source target flags options wait []
      else if strncmp_eq system ''ubifs'' 5 then
        do_mount_ubifs e system source target flags options []
      else if strncmp_eq source ''loop@'' 5 then
        do_mount_loop e system source target flags options []
      else
        do_mount_default e timeout system source target flags options wait [])"
  using assms by (simp add: do_mount_def)

lemma do_mount_mtd_run:
  assumes "do_mount_mtd e timeout system source target flags options wait [] = Some (ret, tr)"
  shows "mtd_run timeout system source target flags options wait tr ret"
  using assms
  by (auto simp: do_mount_mtd_def mtd_run_def ext_call_def Let_def split: if_splits)

lemma do_mount_ubifs_run:
  assumes "do_mount_ubifs e system source target flags options [] = Some (ret, tr)"
  shows "ubifs_run system source target flags options tr ret"
  using assms
  by (auto simp: do_mount_ubifs_def ubifs_run_def ext_call_def Let_def split: if_splits)

lemma do_mount_loop_run:
  assumes "do_mount_loop e system source target flags options [] = Some (ret, tr)"
  shows "loop_run system source target flags options tr ret"
proof -
  let ?o = "Open (drop 5 source) (loop_mode flags)"
  let ?rf = "e [] ?o"
  show ?thesis
  proof (cases "val ?rf < 0")
    case True
    with assms show ?thesis
      by (auto simp: do_mount_loop_def loop_run_def loop_mode_def ext_call_def Let_def)
  next
    case False
    with assms have "loop_scan e system target flags options (loop_mode flags) (val ?rf) 0 [(?o, ?rf)] = Some (ret, tr)"
      by (simp add: do_mount_loop_def loop_mode_def ext_call_def Let_def)
    from loop_scan_run [OF this] obtain tr' where
      "tr = [(?o, ?rf)] @ tr'" "scan_run system target flags options (loop_mode flags) (val ?rf) 0 tr' ret"
      by auto
    with False show ?thesis
      by (simp add: loop_run_def)
  qed
qed

lemma do_mount_default_run:
  assumes "do_mount_default e timeout system source target flags options wait [] = Some (ret, tr)"
  shows "default_run timeout system source target flags options wait tr ret"
proof -
  let ?pre = "if wait then [(Wait_for_file source timeout, e [] (Wait_for_file source timeout))] else []"
  have pre: "map fst ?pre = (if wait then [Wait_for_file source timeout] else [])" by simp
  have tr1: "(if wait then snd (ext_call e (Wait_for_file source timeout) []) else []) = ?pre"
    by (simp add: ext_call_def)
  show ?thesis
  proof (cases "strncmp_eq source ''inand@'' 6")
    case False
    with assms tr1 have "mount_resolved e system source target flags options ?pre = (ret, tr)"
      by (simp add: do_mount_default_def strcpy_tmp_def Let_def split: if_splits)
    from mount_resolved_tail [OF this] obtain evs where
      "tr = ?pre @ evs" "mount_tail system source target flags options evs ret" by blast
    with False pre show ?thesis
      unfolding default_run_def
      by (intro exI [of _ ?pre] exI [of _ "[]"] exI [of _ evs] exI [of _ source]) simp
  next
    case True
    with assms tr1 obtain n tr2 where
      poll: "inand_poll e (drop 6 source) ?pre = Some (n, tr2)" and
      res: "mount_resolved e system (''/dev/block/cardblkinand'' @ show_int n) target flags options tr2 = (ret, tr)"
      by (auto simp: do_mount_default_def Let_def split: option.splits)
    from inand_poll_run [OF poll] obtain polls where
      polls: "tr2 = ?pre @ polls" "poll_run (drop 6 source) polls n" by auto
    from mount_resolved_tail [OF res] obtain evs where
      evs: "tr = tr2 @ evs"
      "mount_tail system (''/dev/block/cardblkinand'' @ show_int n) target flags options evs ret"
      by blast
    from True pre polls evs show ?thesis
      unfolding default_run_def
      by (intro exI [of _ ?pre] exI [of _ polls] exI [of _ evs]
            exI [of _ "''/dev/block/cardblkinand'' @ show_int n"]) auto
  qed
qed

lemma do_mount_cases:
  assumes "parse_mount_args (cmd # system # source # target # toks) = (flags, options, wait)"
    and "do_mount e timeout (cmd # system # source # target # toks) = Some (ret, tr)"
  shows "(strncmp_eq source ''mtd@'' 4 \<and> mtd_run timeout system source target flags options wait tr ret)
       \<or> (\<not> strncmp_eq source ''mtd@'' 4 \<and> strncmp_eq system ''ubifs'' 5 \<and>
           ubifs_run system source target flags options tr ret)
       \<or> (\<not> strncmp_eq source ''mtd@'' 4 \<and> \<not> strncmp_eq system ''ubifs'' 5 \<and>
           strncmp_eq source ''loop@'' 5 \<and> loop_run system source target flags options tr ret)
       \<or> (default_branch system source \<and> default_run timeout system source target flags options wait tr ret)"
  using assms(2) unfolding do_mount_branches [OF assms(1)] default_branch_def
  by (auto split: if_splits
      dest: do_mount_mtd_run do_mount_ubifs_run do_mount_loop_run do_mount_default_run)

text \<open>
  A literal source of 64 bytes or more in the last branch overruns \<^verbatim>\<open>tmp\<close>: such an
  invocation has no run, and every statement below about a run \<open>Some (ret, tr)\<close> is
  about invocations that stay within defined behaviour.
\<close>

lemma do_mount_overrun:
  assumes "parse_mount_args (cmd # system # source # target # toks) = (flags, options, wait)"
    and "default_branch system source" and "\<not> strncmp_eq source ''inand@'' 6"
    and "64 \<le> length source"
  shows "do_mount e timeout (cmd # system # source # target # toks) = None"
  using assms(2-4) unfolding do_mount_branches [OF assms(1)]
  by (simp add: default_branch_def do_mount_default_def strcpy_tmp_def Let_def)

lemma do_mount_literal_length:
  assumes "parse_mount_args (cmd # system # source # target # toks) = (flags, options, wait)"
    and "do_mount e timeout (cmd # system # source # target # toks) = Some (ret, tr)"
    and "default_branch system source" and "\<not> strncmp_eq source ''inand@'' 6"
  shows "length source < 64"
proof (rule ccontr)
  assume "\<not> length source < 64"
  then have "64 \<le> length source" by simp
  from do_mount_overrun [OF assms(1,3,4) this] assms(2) show False by simp
qed

subsection \<open>Mounts, formats and return values of the runs\<close>

lemma format_calls_append [simp]: "format_calls (a @ b) = format_calls a @ format_calls b"
  by (simp add: format_calls_def)

lemma mount_results_append [simp]: "mount_results (a @ b) = mount_results a @ mount_results b"
  by (simp add: mount_results_def)

lemma mtd_run_obs:
  assumes "mtd_run timeout system source target flags options wait tr ret"
  shows "format_calls tr = [] \<and> (ret = 0 \<or> ret = - 1) \<and>
         (ret = 0 \<longleftrightarrow> mount_results tr \<noteq> [] \<and> 0 \<le> last (mount_results tr))"
  using assms
  by (auto simp: mtd_run_def Let_def format_calls_def mount_results_def map_eq_Cons_conv
           split: if_splits)

lemma ubifs_run_obs:
  assumes "ubifs_run system source target flags options tr ret"
  shows "format_calls tr = [] \<and> (ret = 0 \<or> ret = - 1) \<and>
         (ret = 0 \<longleftrightarrow> mount_results tr \<noteq> [] \<and> 0 \<le> last (mount_results tr))"
  using assms
  by (auto simp: ubifs_run_def Let_def format_calls_def mount_results_def map_eq_Cons_conv
           split: if_splits)

lemma skipped_slot_obs:
  assumes "skipped_slot mode fd n seg"
  shows "format_calls seg = [] \<and> mount_results seg = []"
  using assms
  by (auto simp: skipped_slot_def Let_def format_calls_def mount_results_def map_eq_Cons_conv)

lemma skipped_slots_obs:
  assumes "\<forall>i < length segs. skipped_slot mode fd (n + i) (segs ! i)"
  shows "format_calls (concat segs) = [] \<and> mount_results (concat segs) = []"
  using assms
proof (induction segs arbitrary: n)
  case Nil
  then show ?case by (simp add: format_calls_def mount_results_def)
next
  case (Cons seg segs)
  from Cons.prems have "skipped_slot mode fd (n + 0) ((seg # segs) ! 0)" by blast
  then have s: "skipped_slot mode fd n seg" by simp
  have "\<forall>i < length segs. skipped_slot mode fd (Suc n + i) (segs ! i)"
  proof (intro allI impI)
    fix i assume "i < length segs"
    then have "Suc i < length (seg # segs)" by simp
    with Cons.prems have "skipped_slot mode fd (n + Suc i) ((seg # segs) ! Suc i)" by blast
    then show "skipped_slot mode fd (Suc n + i) (segs ! i)" by simp
  qed
  from Cons.IH [OF this] skipped_slot_obs [OF s] show ?case by simp
qed

lemma final_slot_obs:
  assumes "final_slot system target flags options mode fd n fin ret"
  shows "format_calls fin = [] \<and> (ret = 0 \<or> ret = - 1) \<and>
         (ret = 0 \<longleftrightarrow> mount_results fin \<noteq> [] \<and> 0 \<le> last (mount_results fin))"
  using assms
  by (auto simp: final_slot_def Let_def format_calls_def mount_results_def map_eq_Cons_conv)

lemma scan_run_obs:
  assumes "scan_run system target flags options mode fd n evs ret"
  shows "format_calls evs = [] \<and> (ret = 0 \<or> ret = - 1) \<and>
         (ret = 0 \<longleftrightarrow> mount_results evs \<noteq> [] \<and> 0 \<le> last (mount_results evs))"
proof -
  from assms obtain segs fin where evs: "evs = concat segs @ fin"
    and sk: "\<forall>i < length segs. skipped_slot mode fd (n + i) (segs ! i)"
    and fi: "final_slot system target flags options mode fd (n + length segs) fin ret"
    unfolding scan_run_def by blast
  from skipped_slots_obs [OF sk] final_slot_obs [OF fi] evs show ?thesis by auto
qed

lemma loop_run_obs:
  assumes "loop_run system source target flags options tr ret"
  shows "format_calls tr = [] \<and> (ret = 0 \<or> ret = - 1) \<and>
         (ret = 0 \<longleftrightarrow> mount_results tr \<noteq> [] \<and> 0 \<le> last (mount_results tr))"
proof -
  from assms obtain ev evs where tr: "tr = ev # evs" and o: "fst ev = Open (drop 5 source) (loop_mode flags)"
    by (cases tr) (auto simp: loop_run_def Let_def)
  have hd: "format_calls [ev] = []" "mount_results [ev] = []"
    using o by (cases ev; simp add: format_calls_def mount_results_def)+
  show ?thesis
  proof (cases "val (snd ev) < 0")
    case True
    with assms tr hd show ?thesis by (auto simp: loop_run_def Let_def)
  next
    case False
    with assms tr have "scan_run system target flags options (loop_mode flags) (val (snd ev)) 0 evs ret"
      by (simp add: loop_run_def Let_def)
    from scan_run_obs [OF this] hd show ?thesis
      using format_calls_append [of "[ev]" evs] mount_results_append [of "[ev]" evs] tr by auto
  qed
qed

lemma poll_events_obs: "format_calls (poll_events label rs) = [] \<and> mount_results (poll_events label rs) = []"
  by (induction rs) (auto simp: poll_events_def format_calls_def mount_results_def)

lemma poll_run_obs:
  assumes "poll_run label polls n"
  shows "format_calls polls = [] \<and> mount_results polls = []"
  using assms poll_events_obs unfolding poll_run_def by blast

lemma wait_obs:
  assumes "map fst pre = (if wait then [Wait_for_file source timeout] else [])"
  shows "format_calls pre = [] \<and> mount_results pre = []"
  using assms
  by (auto simp: format_calls_def mount_results_def map_eq_Cons_conv split: if_splits)

lemma mount_tail_obs:
  assumes "mount_tail system dev target flags options evs ret"
  shows "mount_results evs \<noteq> [] \<and>
         (format_calls evs \<noteq> [] \<longleftrightarrow> hd (mount_results evs) < 0 \<and> wants_format system target) \<and>
         (ret = 0 \<or> ret = - 2) \<and>
         (last (mount_results evs) = 0 \<longrightarrow> ret = 0)"
  using assms
  by (auto simp: mount_tail_def Let_def format_calls_def mount_results_def map_eq_Cons_conv
           split: if_splits)


lemma default_run_split:
  assumes "default_run timeout system source target flags options wait tr ret"
  shows "\<exists>pre evs dev. tr = pre @ evs \<and> format_calls pre = [] \<and> mount_results pre = [] \<and>
           mount_tail system dev target flags options evs ret"
proof -
  from assms obtain pre polls evs dev where tr: "tr = pre @ polls @ evs"
    and pre: "map fst pre = (if wait then [Wait_for_file source timeout] else [])"
    and polls: "if strncmp_eq source ''inand@'' 6
         then \<exists>n. poll_run (drop 6 source) polls n \<and> dev = ''/dev/block/cardblkinand'' @ show_int n
         else polls = [] \<and> dev = source"
    and evs: "mount_tail system dev target flags options evs ret"
    unfolding default_run_def by blast
  have "format_calls polls = [] \<and> mount_results polls = []"
    using polls poll_run_obs by (auto simp: format_calls_def mount_results_def split: if_splits)
  with wait_obs [OF pre] have "format_calls (pre @ polls) = [] \<and> mount_results (pre @ polls) = []"
    by simp
  with tr evs show ?thesis
    by (intro exI [of _ "pre @ polls"] exI [of _ evs] exI [of _ dev]) simp
qed

lemma do_mount_obs:
  assumes "parse_mount_args (cmd # system # source # target # toks) = (flags, options, wait)"
    and "do_mount e timeout (cmd # system # source # target # toks) = Some (ret, tr)"
  shows "(\<not> default_branch system source \<and>
            format_calls tr = [] \<and> (ret = 0 \<or> ret = - 1) \<and>
            (ret = 0 \<longleftrightarrow> mount_results tr \<noteq> [] \<and> 0 \<le> last (mount_results tr)))
       \<or> (default_branch system source \<and>
            (\<exists>pre evs dev. tr = pre @ evs \<and> format_calls pre = [] \<and> mount_results pre = [] \<and>
               mount_tail system dev target flags options evs ret))"
proof -
  from do_mount_cases [OF assms] consider
      (mtd) "strncmp_eq source ''mtd@'' 4" "mtd_run timeout system source target flags options wait tr ret"
    | (ubifs) "strncmp_eq system ''ubifs'' 5" "ubifs_run system source target flags options tr ret"
    | (loop) "strncmp_eq source ''loop@'' 5" "loop_run system source target flags options tr ret"
    | (dflt) "default_branch system source" "default_run timeout system source target flags options wait tr ret"
    by blast
  then show ?thesis
  proof cases
    case mtd
    from mtd(1) mtd_run_obs [OF mtd(2)] show ?thesis by (auto simp: default_branch_def)
  next
    case ubifs
    from ubifs(1) ubifs_run_obs [OF ubifs(2)] show ?thesis by (auto simp: default_branch_def)
  next
    case loop
    from loop(1) loop_run_obs [OF loop(2)] show ?thesis by (auto simp: default_branch_def)
  next
    case dflt
    from dflt(1) default_run_split [OF dflt(2)] show ?thesis by simp
  qed
qed

subsection \<open>Format recovery\<close>

text \<open>
  C3, as the code has it.  For every \<^verbatim>\<open>do_mount\<close> invocation that returns and whose
  first mount attempt fails, \<^verbatim>\<open>make_ext4fs\<close> is called if and only if the invocation takes the last
  branch (the source begins with neither \<^verbatim>\<open>mtd@\<close> nor \<^verbatim>\<open>loop@\<close>, the filesystem type
  does not begin with \<^verbatim>\<open>ubifs\<close>), the filesystem type begins with \<^verbatim>\<open>ext4\<close> and the
  target begins with \<^verbatim>\<open>/cache\<close>: both comparisons are \<^verbatim>\<open>strncmp\<close> on a prefix.
\<close>

theorem format_recovery_iff:
  assumes "parse_mount_args (cmd # system # source # target # toks) = (flags, options, wait)"
    and "do_mount e timeout (cmd # system # source # target # toks) = Some (ret, tr)"
    and "mount_results tr \<noteq> []" and "hd (mount_results tr) < 0"
  shows "format_calls tr \<noteq> [] \<longleftrightarrow>
           default_branch system source \<and>
           strncmp_eq system ''ext4'' 4 \<and> strncmp_eq target ''/cache'' 6"
proof (cases "default_branch system source")
  case False
  with do_mount_obs [OF assms(1,2)] show ?thesis by blast
next
  case True
  with do_mount_obs [OF assms(1,2)] obtain pre evs dev where
    tr: "tr = pre @ evs" and pre: "format_calls pre = []" "mount_results pre = []"
    and tl: "mount_tail system dev target flags options evs ret"
    by blast
  from tr pre have "format_calls tr = format_calls evs" "mount_results tr = mount_results evs"
    by simp_all
  with mount_tail_obs [OF tl] assms(4) True show ?thesis
    by (simp add: wants_format_def)
qed

text \<open>
  The claim as stated fails in both directions: a target \<^verbatim>\<open>/cache2\<close> is formatted, and
  an \<^verbatim>\<open>ext4\<close> mount of an \<^verbatim>\<open>mtd@\<close> source on \<^verbatim>\<open>/cache\<close> fails without a format.
\<close>

theorem format_recovery_counterexample:
  "do_mount env_mount_fails 5 [''mount'', ''ext4'', ''/dev/block/mmcblk0p7'', ''/cache2''] =
     Some (- 2,
       [(Mount ''/dev/block/mmcblk0p7'' ''/cache2'' ''ext4'' 0 None, (- 1, 5)),
        (Make_ext4fs ''/dev/block/mmcblk0p7'' ''/cache2'', (0, 0)),
        (Mount ''/dev/block/mmcblk0p7'' ''/cache2'' ''ext4'' 0 None, (- 1, 5))]) \<and>
   ''/cache2'' \<noteq> ''/cache'' \<and>
   do_mount env_mount_fails 5 [''mount'', ''ext4'', ''mtd@cache'', ''/cache''] =
     Some (- 1,
       [(Mtd_name_to_number ''cache'', (0, 0)),
        (Mount ''/dev/block/mtdblock0'' ''/cache'' ''ext4'' 0 None, (- 1, 5))])"
  by code_simp

theorem format_recovery_iff_witness:
  "do_mount env_mount_fails 5 [''mount'', ''ext4'', ''/dev/block/mmcblk0p5'', ''/cache''] =
     Some (- 2,
       [(Mount ''/dev/block/mmcblk0p5'' ''/cache'' ''ext4'' 0 None, (- 1, 5)),
        (Make_ext4fs ''/dev/block/mmcblk0p5'' ''/cache'', (0, 0)),
        (Mount ''/dev/block/mmcblk0p5'' ''/cache'' ''ext4'' 0 None, (- 1, 5))]) \<and>
   format_calls
       [(Mount ''/dev/block/mmcblk0p5'' ''/cache'' ''ext4'' 0 None, (- 1, 5)),
        (Make_ext4fs ''/dev/block/mmcblk0p5'' ''/cache'', (0, 0)),
        (Mount ''/dev/block/mmcblk0p5'' ''/cache'' ''ext4'' 0 None, (- 1, 5))] \<noteq> [] \<and>
   default_branch ''ext4'' ''/dev/block/mmcblk0p5'' \<and>
   strncmp_eq ''ext4'' ''ext4'' 4 \<and> strncmp_eq ''/cache'' ''/cache'' 6"
proof -
  let ?tr = "[(Mount ''/dev/block/mmcblk0p5'' ''/cache'' ''ext4'' 0 None, (- 1, 5)),
        (Make_ext4fs ''/dev/block/mmcblk0p5'' ''/cache'', (0, 0)),
        (Mount ''/dev/block/mmcblk0p5'' ''/cache'' ''ext4'' 0 None, (- 1, 5))]"
  have parse: "parse_mount_args [''mount'', ''ext4'', ''/dev/block/mmcblk0p5'', ''/cache''] = (0, None, False)"
    by code_simp
  have run: "do_mount env_mount_fails 5 [''mount'', ''ext4'', ''/dev/block/mmcblk0p5'', ''/cache''] = Some (- 2, ?tr)"
    by code_simp
  have h3: "mount_results ?tr \<noteq> []" by code_simp
  have h4: "hd (mount_results ?tr) < 0" by code_simp
  have rhs: "default_branch ''ext4'' ''/dev/block/mmcblk0p5'' \<and>
    strncmp_eq ''ext4'' ''ext4'' 4 \<and> strncmp_eq ''/cache'' ''/cache'' 6" by code_simp
  from format_recovery_iff [OF parse run h3 h4] rhs run show ?thesis by simp
qed




subsection \<open>Return values\<close>

lemma do_mount_return_values:
  assumes "parse_mount_args (cmd # system # source # target # toks) = (flags, options, wait)"
    and "do_mount e timeout (cmd # system # source # target # toks) = Some (ret, tr)"
  shows "(ret = 0 \<or> ret = - 1 \<or> ret = - 2) \<and>
         (mount_results tr \<noteq> [] \<and> last (mount_results tr) = 0 \<longrightarrow> ret = 0) \<and>
         (\<not> default_branch system source \<and> ret = 0 \<longrightarrow>
            mount_results tr \<noteq> [] \<and> 0 \<le> last (mount_results tr))"
proof (cases "default_branch system source")
  case False
  with do_mount_obs [OF assms(1,2)] show ?thesis by auto
next
  case True
  with do_mount_obs [OF assms(1,2)] obtain pre evs dev where
    tr: "tr = pre @ evs" and pre: "format_calls pre = []" "mount_results pre = []"
    and tl: "mount_tail system dev target flags options evs ret"
    by blast
  from tr pre have "mount_results tr = mount_results evs" by simp
  with mount_tail_obs [OF tl] True show ?thesis by auto
qed

lemma do_mount_all_return_values:
  "(length args \<noteq> 2 \<longrightarrow> do_mount_all e args = (Returns (- 1), [])) \<and>
   (length args = 2 \<and> val (e [] Fork) < 0 \<longrightarrow>
      do_mount_all e args = (Returns (- 1), [(Fork, e [] Fork)])) \<and>
   (length args = 2 \<and> 0 < val (e [] Fork) \<longrightarrow>
      (\<not> WIFEXITED (wait_status e) \<longrightarrow> fst (do_mount_all e args) = Returns (- 1)) \<and>
      (WIFEXITED (wait_status e) \<and> WEXITSTATUS (wait_status e) = 0 \<longrightarrow>
         fst (do_mount_all e args) = Returns 0) \<and>
      (WIFEXITED (wait_status e) \<and> WEXITSTATUS (wait_status e) = 1 \<longrightarrow>
         fst (do_mount_all e args) = Returns 1))"
  by (simp add: do_mount_all_def ext_call_def wait_status_def Let_def)

text \<open>
  C10, as the code has it.  A \<^verbatim>\<open>do_mount\<close> invocation that returns (one that neither
  polls or scans forever nor overruns \<^verbatim>\<open>tmp\<close>) returns 0, -1 or -2, never a positive value;
  it returns 0 whenever its last mount attempt returned 0; and in the \<^verbatim>\<open>mtd@\<close>,
  \<^verbatim>\<open>ubifs\<close> and \<^verbatim>\<open>loop@\<close> branches it returns 0 only after a mount attempt that did not
  fail.  \<^verbatim>\<open>do_mount_all\<close> returns -1, without forking, when it is not given exactly
  one argument; it returns -1 when \<^verbatim>\<open>fork\<close> fails (returns a negative value), and,
  as the parent, when the child did not exit normally; as the parent it returns 0
  when the child exited with status 0, and the positive value 1 when the child
  exited with status 1, which stands for an encrypted device.
\<close>

theorem return_values:
  "(\<forall>cmd system source target toks flags options wait e timeout ret tr.
      parse_mount_args (cmd # system # source # target # toks) = (flags, options, wait) \<and>
      do_mount e timeout (cmd # system # source # target # toks) = Some (ret, tr) \<longrightarrow>
        (ret = 0 \<or> ret = - 1 \<or> ret = - 2) \<and>
        (mount_results tr \<noteq> [] \<and> last (mount_results tr) = 0 \<longrightarrow> ret = 0) \<and>
        (\<not> default_branch system source \<and> ret = 0 \<longrightarrow>
           mount_results tr \<noteq> [] \<and> 0 \<le> last (mount_results tr))) \<and>
   (\<forall>e args.
      (length args \<noteq> 2 \<longrightarrow> do_mount_all e args = (Returns (- 1), [])) \<and>
      (length args = 2 \<and> val (e [] Fork) < 0 \<longrightarrow>
         do_mount_all e args = (Returns (- 1), [(Fork, e [] Fork)])) \<and>
      (length args = 2 \<and> 0 < val (e [] Fork) \<longrightarrow>
         (\<not> WIFEXITED (wait_status e) \<longrightarrow> fst (do_mount_all e args) = Returns (- 1)) \<and>
         (WIFEXITED (wait_status e) \<and> WEXITSTATUS (wait_status e) = 0 \<longrightarrow>
            fst (do_mount_all e args) = Returns 0) \<and>
         (WIFEXITED (wait_status e) \<and> WEXITSTATUS (wait_status e) = 1 \<longrightarrow>
            fst (do_mount_all e args) = Returns 1)))"
  using do_mount_return_values do_mount_all_return_values by blast

text \<open>
  The claim as stated fails on an encrypted device: \<^verbatim>\<open>do_mount_all\<close> returns 1.
\<close>

theorem return_values_counterexample:
  "do_mount_all (env_child_exits 1) [''mount_all'', ''/fstab.board''] =
     (Returns 1,
      [(Fork, (57, 0)), (Waitpid 57, (57, 256)),
       (Property_set ''ro.crypto.state'' ''encrypted'', (0, 0)),
       (Property_set ''vold.decrypt'' ''1'', (0, 0))]) \<and> (0 :: int) < 1"
  by code_simp

theorem return_values_witness:
  "parse_mount_args [''mount'', ''ext4'', ''mtd@cache'', ''/cache''] = (0, None, False) \<and>
   do_mount env_mount_fails 5 [''mount'', ''ext4'', ''mtd@cache'', ''/cache''] =
     Some (- 1,
       [(Mtd_name_to_number ''cache'', (0, 0)),
        (Mount ''/dev/block/mtdblock0'' ''/cache'' ''ext4'' 0 None, (- 1, 5))]) \<and>
   ((- 1 :: int) = 0 \<or> (- 1 :: int) = - 1 \<or> (- 1 :: int) = - 2) \<and>
   length [''mount_all'', ''/fstab.board''] = 2 \<and>
   val (env_fork_fails [] Fork) < 0 \<and>
   do_mount_all env_fork_fails [''mount_all'', ''/fstab.board''] = (Returns (- 1), [(Fork, (- 1, 11))]) \<and>
   0 < val (env_child_exits 0 [] Fork) \<and>
   WIFEXITED (wait_status (env_child_exits 0)) \<and> WEXITSTATUS (wait_status (env_child_exits 0)) = 0 \<and>
   fst (do_mount_all (env_child_exits 0) [''mount_all'', ''/fstab.board'']) = Returns 0 \<and>
   do_mount_all (env_child_exits 0) [''mount_all'', ''/fstab.board''] =
     (Returns 0,
      [(Fork, (57, 0)), (Waitpid 57, (57, 0)),
       (Property_set ''ro.crypto.state'' ''unencrypted'', (0, 0)),
       (Action_for_each_trigger ''nonencrypted'', (0, 0))])"
proof -
  let ?tr = "[(Mtd_name_to_number ''cache'', (0, 0)),
        (Mount ''/dev/block/mtdblock0'' ''/cache'' ''ext4'' 0 None, (- 1, 5))]"
  have parse: "parse_mount_args [''mount'', ''ext4'', ''mtd@cache'', ''/cache''] = (0, None, False)"
    by code_simp
  have run: "do_mount env_mount_fails 5 [''mount'', ''ext4'', ''mtd@cache'', ''/cache''] = Some (- 1, ?tr)"
    by code_simp
  have len: "length [''mount_all'', ''/fstab.board''] = 2" by simp
  have ff: "val (env_fork_fails [] Fork) < 0" by code_simp
  have par: "0 < val (env_child_exits 0 [] Fork)" by code_simp
  have ex: "WIFEXITED (wait_status (env_child_exits 0)) \<and> WEXITSTATUS (wait_status (env_child_exits 0)) = 0"
    by code_simp
  have run2: "do_mount_all (env_child_exits 0) [''mount_all'', ''/fstab.board''] =
     (Returns 0,
      [(Fork, (57, 0)), (Waitpid 57, (57, 0)),
       (Property_set ''ro.crypto.state'' ''unencrypted'', (0, 0)),
       (Action_for_each_trigger ''nonencrypted'', (0, 0))])"
    by code_simp
  have ffv: "env_fork_fails [] Fork = (- 1, 11)" by code_simp
  from return_values parse run
  have c1: "(- 1 :: int) = 0 \<or> (- 1 :: int) = - 1 \<or> (- 1 :: int) = - 2"
    by blast
  from return_values len ff
  have c2: "do_mount_all env_fork_fails [''mount_all'', ''/fstab.board''] =
      (Returns (- 1), [(Fork, env_fork_fails [] Fork)])"
    by blast
  from return_values len par ex
  have c3: "fst (do_mount_all (env_child_exits 0) [''mount_all'', ''/fstab.board'']) = Returns 0"
    by blast
  from parse run c1 len ff c2 ffv par ex c3 run2 show ?thesis by simp
qed

subsection \<open>A failed mount of the data partition\<close>

text \<open>
  C1.  When the mount of \<^verbatim>\<open>/data\<close> fails in the last branch, \<^verbatim>\<open>do_mount\<close> sets
  \<^verbatim>\<open>ro.init.mountdatafail\<close> to \<^verbatim>\<open>true\<close> and then reaches \<^verbatim>\<open>exit_success\<close>: it returns
  0, not the failure of the mount.  The run below is
  \<^verbatim>\<open>mount ext4 /dev/block/mmcblk0p6 /data\<close> with a mount that fails.
\<close>

theorem data_mount_failure_run:
  "do_mount env_mount_fails 5 [''mount'', ''ext4'', ''/dev/block/mmcblk0p6'', ''/data''] =
     Some (0,
       [(Mount ''/dev/block/mmcblk0p6'' ''/data'' ''ext4'' 0 None, (- 1, 5)),
        (Property_get ''ro.init.mountdatafail'', (0, 0)),
        (Property_set ''ro.init.mountdatafail'' ''true'', (0, 0))])"
  by code_simp

subsection \<open>Descriptors of the \<^verbatim>\<open>loop@\<close> branch\<close>

text \<open>
  C9.  When the backing file opens and a loop device cannot be opened, the
  \<^verbatim>\<open>loop@\<close> branch returns -1 at once: the descriptor of the backing file is never
  closed.  The run below is \<^verbatim>\<open>mount ext4 loop@/data/fs.img /mnt/img\<close> on a system
  without \<^verbatim>\<open>/dev/block/loop0\<close>; descriptor 3 is left open.
\<close>

theorem loop_backing_descriptor_run:
  "do_mount env_no_loop_device 5 [''mount'', ''ext4'', ''loop@/data/fs.img'', ''/mnt/img''] =
     Some (- 1, [(Open ''/data/fs.img'' 2, (3, 0)), (Open ''/dev/block/loop0'' 2, (- 1, 2))]) \<and>
   open_fds [(Open ''/data/fs.img'' 2, (3, 0)), (Open ''/dev/block/loop0'' 2, (- 1, 2))] = [3]"
  by code_simp

subsection \<open>Waiting for the device file\<close>

lemma inand_not_mtd_loop:
  assumes "strncmp_eq source ''inand@'' 6"
  shows "\<not> strncmp_eq source ''mtd@'' 4 \<and> \<not> strncmp_eq source ''loop@'' 5"
proof -
  have "take 4 (take 6 source) = take 4 source" "take 5 (take 6 source) = take 5 source"
    by simp_all
  with assms have "take 4 source = ''inan''" "take 5 source = ''inand''"
    by (simp_all add: strncmp_eq_def)
  then show ?thesis by (simp add: strncmp_eq_def)
qed


lemma mount_tail_first:
  assumes "mount_tail system dev target flags options evs ret"
  shows "\<exists>rm rest. evs = (Mount dev target system flags options, rm) # rest \<and>
           (0 \<le> val rm \<longrightarrow> ret = 0 \<and> rest = [])"
proof -
  have "evs = (Mount dev target system flags options, snd (evs ! 0)) # tl evs \<and>
        (0 \<le> val (snd (evs ! 0)) \<longrightarrow> ret = 0 \<and> tl evs = [])"
    using assms by (auto simp: mount_tail_def Let_def map_eq_Cons_conv)
  then show ?thesis by blast
qed

lemma mount_tail_no_wait:
  assumes "mount_tail system dev target flags options evs ret"
  shows "wait_calls evs = []"
  using assms
  by (auto simp: mount_tail_def Let_def wait_calls_def map_eq_Cons_conv split: if_splits)

text \<open>
  C2, as the code has it.  With \<^verbatim>\<open>wait\<close> requested, \<^verbatim>\<open>do_mount\<close> returns in the \<^verbatim>\<open>mtd@\<close>
  branch (once the label is found) and in the last branch with a literal source of
  at most 63 bytes.  In such a run \<^verbatim>\<open>wait_for_file\<close> is called exactly once, on the
  resolved device path and with the timeout \<^verbatim>\<open>COMMAND_RETRY_TIMEOUT\<close>, and the very
  next call is the mount of that path: the value returned by \<^verbatim>\<open>wait_for_file\<close> is
  discarded, the mount is attempted whether or not the file appeared, and when that
  mount succeeds the call returns 0.
\<close>

theorem wait_result_discarded:
  assumes "parse_mount_args (cmd # system # source # target # toks) = (flags, options, True)"
  shows "(strncmp_eq source ''mtd@'' 4 \<and> 0 \<le> val (e [] (Mtd_name_to_number (drop 4 source))) \<longrightarrow>
            (\<exists>rn rw rm dev tr.
               dev = ''/dev/block/mtdblock'' @ show_int (val rn) \<and>
               tr = [(Mtd_name_to_number (drop 4 source), rn), (Wait_for_file dev timeout, rw),
                     (Mount dev target system flags options, rm)] \<and>
               do_mount e timeout (cmd # system # source # target # toks) =
                 Some (if val rm < 0 then - 1 else 0, tr) \<and>
               wait_calls tr = [Wait_for_file dev timeout])) \<and>
         (default_branch system source \<and> \<not> strncmp_eq source ''inand@'' 6 \<and> length source < 64 \<longrightarrow>
            (\<exists>ret tr rw rm rest.
               do_mount e timeout (cmd # system # source # target # toks) = Some (ret, tr) \<and>
               tr = (Wait_for_file source timeout, rw) #
                    (Mount source target system flags options, rm) # rest \<and>
               wait_calls tr = [Wait_for_file source timeout] \<and>
               (0 \<le> val rm \<longrightarrow> ret = 0 \<and> rest = [])))"
proof (intro conjI impI)
  assume a: "strncmp_eq source ''mtd@'' 4 \<and> 0 \<le> val (e [] (Mtd_name_to_number (drop 4 source)))"
  let ?look = "Mtd_name_to_number (drop 4 source)"
  let ?rn = "e [] ?look"
  let ?dev = "''/dev/block/mtdblock'' @ show_int (val ?rn)"
  let ?rw = "e [(?look, ?rn)] (Wait_for_file ?dev timeout)"
  let ?m = "Mount ?dev target system flags options"
  let ?rm = "e [(?look, ?rn), (Wait_for_file ?dev timeout, ?rw)] ?m"
  let ?tr = "[(?look, ?rn), (Wait_for_file ?dev timeout, ?rw), (?m, ?rm)]"
  from a have "do_mount e timeout (cmd # system # source # target # toks) =
      Some (if val ?rm < 0 then - 1 else 0, ?tr)"
    unfolding do_mount_branches [OF assms]
    by (simp add: do_mount_mtd_def ext_call_def Let_def)
  moreover have "wait_calls ?tr = [Wait_for_file ?dev timeout]"
    by (simp add: wait_calls_def)
  ultimately show "\<exists>rn rw rm dev tr.
               dev = ''/dev/block/mtdblock'' @ show_int (val rn) \<and>
               tr = [(Mtd_name_to_number (drop 4 source), rn), (Wait_for_file dev timeout, rw),
                     (Mount dev target system flags options, rm)] \<and>
               do_mount e timeout (cmd # system # source # target # toks) =
                 Some (if val rm < 0 then - 1 else 0, tr) \<and>
               wait_calls tr = [Wait_for_file dev timeout]"
    by blast
next
  assume a: "default_branch system source \<and> \<not> strncmp_eq source ''inand@'' 6 \<and> length source < 64"
  let ?w = "(Wait_for_file source timeout, e [] (Wait_for_file source timeout))"
  obtain ret tr where mr: "mount_resolved e system source target flags options [?w] = (ret, tr)"
    by (cases "mount_resolved e system source target flags options [?w]")
  from a have run: "do_mount e timeout (cmd # system # source # target # toks) = Some (ret, tr)"
    unfolding do_mount_branches [OF assms] using mr
    by (simp add: default_branch_def do_mount_default_def strcpy_tmp_def ext_call_def Let_def)
  from mount_resolved_tail [OF mr] obtain evs where
    evs: "tr = [?w] @ evs" "mount_tail system source target flags options evs ret" by blast
  from mount_tail_first [OF evs(2)] obtain rm rest where
    rest: "evs = (Mount source target system flags options, rm) # rest"
      "0 \<le> val rm \<longrightarrow> ret = 0 \<and> rest = []"
    by blast
  from mount_tail_no_wait [OF evs(2)] evs(1)
  have wc: "wait_calls tr = [Wait_for_file source timeout]"
    by (simp add: wait_calls_def)
  from evs(1) rest(1)
  have trs: "tr = (Wait_for_file source timeout, e [] (Wait_for_file source timeout)) #
                  (Mount source target system flags options, rm) # rest"
    by simp
  from run trs wc rest(2) show "\<exists>ret tr rw rm rest.
               do_mount e timeout (cmd # system # source # target # toks) = Some (ret, tr) \<and>
               tr = (Wait_for_file source timeout, rw) #
                    (Mount source target system flags options, rm) # rest \<and>
               wait_calls tr = [Wait_for_file source timeout] \<and>
               (0 \<le> val rm \<longrightarrow> ret = 0 \<and> rest = [])"
    by blast
qed

text \<open>
  The claim as stated fails for \<^verbatim>\<open>mount tmpfs tmpfs /mnt wait\<close>: no file \<^verbatim>\<open>tmpfs\<close>
  appears, the wait times out, the mount is made all the same and the call returns 0.
\<close>

theorem wait_result_discarded_counterexample:
  "do_mount env_wait_times_out 5 [''mount'', ''tmpfs'', ''tmpfs'', ''/mnt'', ''wait''] =
     Some (0,
       [(Wait_for_file ''tmpfs'' 5, (- 1, 0)),
        (Mount ''tmpfs'' ''/mnt'' ''tmpfs'' 0 None, (0, 0))])"
  by code_simp

theorem wait_result_discarded_witness:
  "parse_mount_args [''mount'', ''ext4'', ''/dev/block/mmcblk0p9'', ''/system'', ''wait'', ''ro'']
     = (1, None, True) \<and>
   default_branch ''ext4'' ''/dev/block/mmcblk0p9'' \<and>
   \<not> strncmp_eq ''/dev/block/mmcblk0p9'' ''inand@'' 6 \<and>
   length ''/dev/block/mmcblk0p9'' < 64 \<and>
   do_mount env_wait_times_out 5
        [''mount'', ''ext4'', ''/dev/block/mmcblk0p9'', ''/system'', ''wait'', ''ro''] =
     Some (0,
       [(Wait_for_file ''/dev/block/mmcblk0p9'' 5, (- 1, 0)),
        (Mount ''/dev/block/mmcblk0p9'' ''/system'' ''ext4'' 1 None, (0, 0))]) \<and>
   wait_calls
       [(Wait_for_file ''/dev/block/mmcblk0p9'' 5, (- 1, 0)),
        (Mount ''/dev/block/mmcblk0p9'' ''/system'' ''ext4'' 1 None, (0, 0))] =
     [Wait_for_file ''/dev/block/mmcblk0p9'' 5] \<and>
   parse_mount_args [''mount'', ''yaffs2'', ''mtd@system'', ''/system'', ''wait'']
     = (0, None, True) \<and>
   strncmp_eq ''mtd@system'' ''mtd@'' 4 \<and>
   0 \<le> val (env_wait_times_out [] (Mtd_name_to_number (drop 4 ''mtd@system''))) \<and>
   do_mount env_wait_times_out 5 [''mount'', ''yaffs2'', ''mtd@system'', ''/system'', ''wait''] =
     Some (0,
       [(Mtd_name_to_number ''system'', (0, 0)),
        (Wait_for_file ''/dev/block/mtdblock0'' 5, (- 1, 0)),
        (Mount ''/dev/block/mtdblock0'' ''/system'' ''yaffs2'' 0 None, (0, 0))])"
proof -
  let ?args = "[''mount'', ''ext4'', ''/dev/block/mmcblk0p9'', ''/system'', ''wait'', ''ro'']"
  let ?tr = "[(Wait_for_file ''/dev/block/mmcblk0p9'' 5, (- 1, 0)),
        (Mount ''/dev/block/mmcblk0p9'' ''/system'' ''ext4'' 1 None, (0, 0))]"
  have parse: "parse_mount_args ?args = (1, None, True)"
    by code_simp
  have br: "default_branch ''ext4'' ''/dev/block/mmcblk0p9'' \<and>
            \<not> strncmp_eq ''/dev/block/mmcblk0p9'' ''inand@'' 6 \<and>
            length ''/dev/block/mmcblk0p9'' < 64"
    by code_simp
  have run: "do_mount env_wait_times_out 5 ?args = Some (0, ?tr)"
    by code_simp
  have parse2: "parse_mount_args [''mount'', ''yaffs2'', ''mtd@system'', ''/system'', ''wait'']
     = (0, None, True)"
    by code_simp
  have br2: "strncmp_eq ''mtd@system'' ''mtd@'' 4 \<and>
     0 \<le> val (env_wait_times_out [] (Mtd_name_to_number (drop 4 ''mtd@system'')))"
    by code_simp
  have run2: "do_mount env_wait_times_out 5 [''mount'', ''yaffs2'', ''mtd@system'', ''/system'', ''wait''] =
     Some (0,
       [(Mtd_name_to_number ''system'', (0, 0)),
        (Wait_for_file ''/dev/block/mtdblock0'' 5, (- 1, 0)),
        (Mount ''/dev/block/mtdblock0'' ''/system'' ''yaffs2'' 0 None, (0, 0))])"
    by code_simp
  from wait_result_discarded [OF parse, where e = env_wait_times_out and timeout = 5,
      THEN conjunct2, rule_format, OF br] run
  have w: "wait_calls ?tr = [Wait_for_file ''/dev/block/mmcblk0p9'' 5]"
    by auto
  from wait_result_discarded [OF parse2, where e = env_wait_times_out and timeout = 5,
      THEN conjunct1, rule_format, OF br2] run2
  have "\<exists>tr. do_mount env_wait_times_out 5 [''mount'', ''yaffs2'', ''mtd@system'', ''/system'', ''wait''] =
     Some (0, tr)"
    by auto
  with parse br run w parse2 br2 run2 show ?thesis by simp
qed

subsection \<open>Resolution of an \<^verbatim>\<open>inand@\<close> source\<close>

text \<open>
  C7, as the code has it.  For every \<^verbatim>\<open>do_mount\<close> invocation with an \<^verbatim>\<open>inand@<label>\<close>
  source and a filesystem type that does not begin with \<^verbatim>\<open>ubifs\<close>: the label is
  looked up again and again, each lookup followed by \<^verbatim>\<open>usleep(200000)\<close>, with no bound
  on the number of attempts.  If every lookup fails the call never returns; if some
  lookup (the one after \<open>k\<close> others) is bound to succeed the call returns; and whenever
  the call returns, the lookups before the last one failed, the last one yielded an
  index \<open>n \<ge> 0\<close>, and the mount that follows is on \<^verbatim>\<open>/dev/block/cardblkinand<n>\<close>.
\<close>

theorem inand_resolution:
  assumes "parse_mount_args (cmd # system # source # target # toks) = (flags, options, wait)"
    and "strncmp_eq source ''inand@'' 6"
    and "\<not> strncmp_eq system ''ubifs'' 5"
  shows "((\<forall>h. val (e h (Inand_name_to_number (drop 6 source))) < 0) \<longrightarrow>
            do_mount e timeout (cmd # system # source # target # toks) = None) \<and>
         ((\<exists>k. \<forall>h. lookups h = k \<longrightarrow> 0 \<le> val (e h (Inand_name_to_number (drop 6 source)))) \<longrightarrow>
            do_mount e timeout (cmd # system # source # target # toks) \<noteq> None) \<and>
         (\<forall>ret tr. do_mount e timeout (cmd # system # source # target # toks) = Some (ret, tr) \<longrightarrow>
            (\<exists>pre polls n rm rest.
               tr = pre @ polls @
                    (Mount (''/dev/block/cardblkinand'' @ show_int n) target system flags options, rm) # rest \<and>
               map fst pre = (if wait then [Wait_for_file source timeout] else []) \<and>
               poll_run (drop 6 source) polls n))"
proof -
  let ?args = "cmd # system # source # target # toks"
  define pre0 where "pre0 = (if wait then [(Wait_for_file source timeout, e [] (Wait_for_file source timeout))] else [])"
  from inand_not_mtd_loop [OF assms(2)] assms(3)
  have d: "default_branch system source" by (simp add: default_branch_def)
  then have dm: "do_mount e timeout ?args = do_mount_default e timeout system source target flags options wait []"
    unfolding do_mount_branches [OF assms(1)] by (simp add: default_branch_def)
  have dd: "do_mount_default e timeout system source target flags options wait [] =
      (case inand_poll e (drop 6 source) pre0 of
         None \<Rightarrow> None
       | Some (n, tr2) \<Rightarrow>
           Some (mount_resolved e system (''/dev/block/cardblkinand'' @ show_int n) target flags options tr2))"
    using assms(2) by (simp add: do_mount_default_def ext_call_def Let_def pre0_def)
  have never: "(\<forall>h. val (e h (Inand_name_to_number (drop 6 source))) < 0) \<longrightarrow> do_mount e timeout ?args = None"
  proof
    assume "\<forall>h. val (e h (Inand_name_to_number (drop 6 source))) < 0"
    from inand_poll_never [of e "drop 6 source", OF this] show "do_mount e timeout ?args = None"
      by (simp add: dm dd)
  qed
  have returns: "(\<exists>k. \<forall>h. lookups h = k \<longrightarrow> 0 \<le> val (e h (Inand_name_to_number (drop 6 source)))) \<longrightarrow>
            do_mount e timeout ?args \<noteq> None"
  proof
    assume "\<exists>k. \<forall>h. lookups h = k \<longrightarrow> 0 \<le> val (e h (Inand_name_to_number (drop 6 source)))"
    then obtain k where k: "\<forall>h. lookups h = k \<longrightarrow> 0 \<le> val (e h (Inand_name_to_number (drop 6 source)))"
      by blast
    have "lookups pre0 \<le> k" by (simp add: lookups_def pre0_def)
    from inand_poll_returns [of k e "drop 6 source", OF k this] show "do_mount e timeout ?args \<noteq> None"
      by (auto simp: dm dd split: option.splits)
  qed
  have shape: "\<forall>ret tr. do_mount e timeout ?args = Some (ret, tr) \<longrightarrow>
            (\<exists>pre polls n rm rest.
               tr = pre @ polls @
                    (Mount (''/dev/block/cardblkinand'' @ show_int n) target system flags options, rm) # rest \<and>
               map fst pre = (if wait then [Wait_for_file source timeout] else []) \<and>
               poll_run (drop 6 source) polls n)"
  proof (intro allI impI)
    fix ret tr assume "do_mount e timeout ?args = Some (ret, tr)"
    with dm have "do_mount_default e timeout system source target flags options wait [] = Some (ret, tr)"
      by simp
    from do_mount_default_run [OF this] assms(2) obtain pre polls evs n where
      tr: "tr = pre @ polls @ evs" and pre: "map fst pre = (if wait then [Wait_for_file source timeout] else [])"
      and polls: "poll_run (drop 6 source) polls n"
      and evs: "mount_tail system (''/dev/block/cardblkinand'' @ show_int n) target flags options evs ret"
      unfolding default_run_def by auto
    from mount_tail_first [OF evs] obtain rm rest where
      "evs = (Mount (''/dev/block/cardblkinand'' @ show_int n) target system flags options, rm) # rest"
      by blast
    with tr pre polls show "\<exists>pre polls n rm rest.
               tr = pre @ polls @
                    (Mount (''/dev/block/cardblkinand'' @ show_int n) target system flags options, rm) # rest \<and>
               map fst pre = (if wait then [Wait_for_file source timeout] else []) \<and>
               poll_run (drop 6 source) polls n"
      by blast
  qed
  from never returns shape show ?thesis by blast
qed

text \<open>
  The claim as stated fails when the filesystem type begins with \<^verbatim>\<open>ubifs\<close>: that branch
  comes first, mounts the source string as it is and never looks the label up, so the
  call returns although no lookup could succeed.
\<close>

theorem inand_resolution_counterexample:
  "do_mount env_no_inand 5 [''mount'', ''ubifs'', ''inand@system'', ''/system''] =
     Some (0, [(Mount ''inand@system'' ''/system'' ''ubifs'' 0 None, (0, 0))])"
  by code_simp

theorem inand_resolution_witness:
  "parse_mount_args [''mount'', ''ext4'', ''inand@data'', ''/data'', ''nosuid''] = (2, None, False) \<and>
   strncmp_eq ''inand@data'' ''inand@'' 6 \<and> \<not> strncmp_eq ''ext4'' ''ubifs'' 5 \<and>
   (\<forall>h. val (env_no_inand h (Inand_name_to_number (drop 6 ''inand@data''))) < 0) \<and>
   do_mount env_no_inand 5 [''mount'', ''ext4'', ''inand@data'', ''/data'', ''nosuid''] = None \<and>
   do_mount env_inand_third 5 [''mount'', ''ext4'', ''inand@data'', ''/data'', ''nosuid''] \<noteq> None \<and>
   do_mount env_inand_third 5 [''mount'', ''ext4'', ''inand@data'', ''/data'', ''nosuid''] =
     Some (0,
       [(Inand_name_to_number ''data'', (- 1, 0)), (Usleep 200000, (0, 0)),
        (Inand_name_to_number ''data'', (- 1, 0)), (Usleep 200000, (0, 0)),
        (Inand_name_to_number ''data'', (7, 0)), (Usleep 200000, (0, 0)),
        (Mount ''/dev/block/cardblkinand7'' ''/data'' ''ext4'' 2 None, (0, 0))])"
proof -
  have parse: "parse_mount_args [''mount'', ''ext4'', ''inand@data'', ''/data'', ''nosuid''] = (2, None, False)"
    by code_simp
  have src: "strncmp_eq ''inand@data'' ''inand@'' 6" by code_simp
  have fs: "\<not> strncmp_eq ''ext4'' ''ubifs'' 5" by code_simp
  have never: "\<forall>h. val (env_no_inand h (Inand_name_to_number (drop 6 ''inand@data''))) < 0"
    by (simp add: env_no_inand_def val_def)
  have third: "\<forall>h. lookups h = 2 \<longrightarrow> 0 \<le> val (env_inand_third h (Inand_name_to_number (drop 6 ''inand@data'')))"
    by (simp add: env_inand_third_def val_def)
  have poll: "inand_poll env_inand_third ''data'' [] =
     Some (7,
       [(Inand_name_to_number ''data'', (- 1, 0)), (Usleep 200000, (0, 0)),
        (Inand_name_to_number ''data'', (- 1, 0)), (Usleep 200000, (0, 0)),
        (Inand_name_to_number ''data'', (7, 0)), (Usleep 200000, (0, 0))])"
    by (subst inand_poll.simps, simp add: ext_call_def env_inand_third_def lookups_def val_def)+
  have run: "do_mount env_inand_third 5 [''mount'', ''ext4'', ''inand@data'', ''/data'', ''nosuid''] =
     Some (0,
       [(Inand_name_to_number ''data'', (- 1, 0)), (Usleep 200000, (0, 0)),
        (Inand_name_to_number ''data'', (- 1, 0)), (Usleep 200000, (0, 0)),
        (Inand_name_to_number ''data'', (7, 0)), (Usleep 200000, (0, 0)),
        (Mount ''/dev/block/cardblkinand7'' ''/data'' ''ext4'' 2 None, (0, 0))])"
    unfolding do_mount_branches [OF parse]
    by (simp add: strncmp_eq_def do_mount_default_def poll mount_resolved_def ext_call_def
          env_inand_third_def val_def show_int_def digit_char_def)
  from inand_resolution [OF parse src fs, of env_no_inand] never
  have none: "do_mount env_no_inand 5 [''mount'', ''ext4'', ''inand@data'', ''/data'', ''nosuid''] = None"
    by blast
  from inand_resolution [OF parse src fs, of env_inand_third] third
  have some: "do_mount env_inand_third 5 [''mount'', ''ext4'', ''inand@data'', ''/data'', ''nosuid''] \<noteq> None"
    by blast
  from parse src fs never none some run show ?thesis by blast
qed

subsection \<open>Selection of the loop slot\<close>




end
